theory Spec2Isabelle
  imports Main "HOL-Library.Word"
begin

section \<open>The LightRAG Streamlit front end: session state and request lifecycle\<close>

text \<open>
  The script \<^verbatim>\<open>notebooks/streamlit-app-lightrag.py\<close> keeps all of its state in Streamlit's
  \<^verbatim>\<open>st.session_state\<close> and talks to three outside parties: the OpenAI client (the
  credential probe), the LightRAG engine (construction, \<^verbatim>\<open>aquery\<close>, \<^verbatim>\<open>ainsert\<close>) and the
  Streamlit widgets. The session state is a record that every function takes and returns;
  what the outside parties answer on one call is read from an environment record.

  Conventions.
  \<^item> A Python \<^verbatim>\<open>str\<close> is a \<^typ>\<open>string\<close>, one \<^typ>\<open>char\<close> per code point, so the model
    speaks of texts whose code points are below 256. The few symbols beyond that in the
    script's own literals are spelled by their UTF-8 bytes; the script never measures or
    slices those literals.
  \<^item> The temperature is a Python \<^verbatim>\<open>float\<close> that the script only stores, compares with
    nothing, and formats; it is carried as the text that \<^verbatim>\<open>str\<close> gives for it.
  \<^item> A Python \<^verbatim>\<open>dict\<close> with a fixed set of keys (the settings) is a record; the metadata
    of a message, whose keys differ from message to message, is an association list in the
    order of the dict literal.
\<close>

subsection \<open>Texts\<close>

definition nl :: string where
  "nl = [CHR 0x0A]"

definition apostrophe :: string where
  "apostrophe = [CHR 0x27]"

definition backticks :: string where
  "backticks = [CHR 0x60, CHR 0x60, CHR 0x60]"

definition warning_sign :: string where
  \<comment> \<open>U+26A0 U+FE0F, as UTF-8\<close>
  "warning_sign = [CHR 0xE2, CHR 0x9A, CHR 0xA0, CHR 0xEF, CHR 0xB8, CHR 0x8F]"

definition info_sign :: string where
  \<comment> \<open>U+2139 U+FE0F, as UTF-8\<close>
  "info_sign = [CHR 0xE2, CHR 0x84, CHR 0xB9, CHR 0xEF, CHR 0xB8, CHR 0x8F]"

definition digit_char :: "nat \<Rightarrow> char" where
  "digit_char n = ''0123456789abcdef'' ! n"

text \<open>\<^verbatim>\<open>str(n)\<close> for a non-negative integer, as the f-strings render counts and lengths.\<close>

fun str_nat :: "nat \<Rightarrow> string" where
  "str_nat n = (if n < 10 then [digit_char n] else str_nat (n div 10) @ [digit_char (n mod 10)])"

declare str_nat.simps [simp del]

text \<open>\<^verbatim>\<open>sep.join(xs)\<close>.\<close>

fun join :: "string \<Rightarrow> string list \<Rightarrow> string" where
  "join sep [] = []"
| "join sep [x] = x"
| "join sep (x # y # ys) = x @ sep @ join sep (y # ys)"

text \<open>\<^verbatim>\<open>xs[-n:]\<close> for a positive \<open>n\<close>: the whole list when it has at most \<open>n\<close> elements.\<close>

definition py_last :: "nat \<Rightarrow> 'a list \<Rightarrow> 'a list" where
  "py_last n xs = drop (length xs - n) xs"

text \<open>
  \<^verbatim>\<open>xxhash.xxh64(data).hexdigest()\<close>: the 64-bit digest as 16 lower-case hexadecimal digits,
  most significant first. The hash function itself belongs to the xxhash library and is
  taken from the environment (below); the rendering of its result is this function.
\<close>

definition hexdigest :: "64 word \<Rightarrow> string" where
  "hexdigest w = map (\<lambda>i. digit_char (unat w div 16 ^ (15 - i) mod 16)) [0..<16]"

definition is_hex_char :: "char \<Rightarrow> bool" where
  "is_hex_char c = (c \<in> set ''0123456789abcdef'')"

subsection \<open>Data\<close>

definition DEFAULT_LLM_MODEL :: string where
  "DEFAULT_LLM_MODEL = ''gpt-4o-mini-2024-07-18''"

definition DEFAULT_EMBEDDER_MODEL :: string where
  "DEFAULT_EMBEDDER_MODEL = ''text-embedding-ada-002''"

definition AVAILABLE_LLM_MODELS :: "string list" where
  "AVAILABLE_LLM_MODELS = [DEFAULT_LLM_MODEL, ''gpt-4o-mini'']"

definition AVAILABLE_EMBEDDER_MODELS :: "string list" where
  "AVAILABLE_EMBEDDER_MODELS = [DEFAULT_EMBEDDER_MODEL, ''text-embedding-3-small'']"

text \<open>The options of the search mode select box, the list literal of line 344.\<close>

definition SEARCH_MODES :: "string list" where
  "SEARCH_MODES = [''naive'', ''local'', ''global'', ''hybrid'']"

text \<open>\<^verbatim>\<open>st.session_state.settings\<close>, with the keys of the dict literal of lines 638-645.\<close>

record settings =
  search_mode :: string
  llm_model :: string
  embedding_model :: string
  system_prompt :: string
  temperature :: string
  api_key :: string

text \<open>The \<^verbatim>\<open>EmbeddingFunc\<close> that \<^verbatim>\<open>get_embedding_config\<close> builds.\<close>

record embedding_func =
  embedding_dim :: nat
  max_token_size :: nat
  embedding_model_name :: string

text \<open>The arguments of the \<^verbatim>\<open>LightRAG(...)\<close> call of lines 196-204.\<close>

record lightrag_args =
  working_dir :: string
  llm_model_name :: string
  llm_model_max_async :: nat
  llm_model_max_token_size :: nat
  llm_model_kwargs :: "(string \<times> string) list"
  embedding :: embedding_func

text \<open>
  The engine object: the arguments it was built from, and what the script reads from it
  after construction, \<^verbatim>\<open>chunk_entity_relation_graph._graph\<close>: \<open>None\<close> when there is no graph
  object, otherwise its node and edge counts.
\<close>

record engine =
  built_from :: lightrag_args
  graph :: "(nat \<times> nat) option"

text \<open>An entry of \<^verbatim>\<open>st.session_state.messages\<close>.\<close>

record message =
  role :: string
  content :: string
  metadata :: "(string \<times> string) list"

text \<open>
  What a run does besides changing the session fields: the calls to Streamlit, to the
  logger, to the OpenAI client and to the engine, and the appends to the two session
  sequences, in program order.
\<close>

datatype effect =
    StError string
  | StSuccess string
  | StWrite string
  | StMarkdown string
  | StExpander string "string list"
  | StForm
  | StDownloadButton string string string string
  | LoggerError string
  | LoggerException string
  | OpenAIProbe string
  | LightRAGInit lightrag_args
  | EngineQuery string string
  | EngineInsert string
  | LogAppend string
  | MessagesAppend message

text \<open>
  \<^verbatim>\<open>st.session_state\<close>. The field \<open>trace\<close> is not a field of the script: it records the
  effects above so that theorems can speak of what was called and in which order.
\<close>

record session_state =
  initialized :: bool
  settings :: settings
  rag :: "engine option"
  messages :: "message list"
  activity_log :: "string list"
  trace :: "effect list"

text \<open>
  How a call ends: it returns, it raises a Python exception (carried as \<^verbatim>\<open>str(e)\<close>), or it
  calls \<^verbatim>\<open>st.rerun()\<close>, which abandons the run; Streamlit's rerun signal is not an
  \<^verbatim>\<open>Exception\<close>, so no \<^verbatim>\<open>except Exception\<close> of the script stops it.
\<close>

datatype 'a outcome = Returned 'a | Raised string | Rerun

text \<open>
  What the outside answers during one call of an operation. Each operation makes each of
  these calls at most once.
  \<^item> \<open>openai_probe\<close>: the two requests of \<^verbatim>\<open>test_api_key\<close> (one embedding, one chat
    completion): \<open>Inl\<close> the text of the exception either of them raised, \<open>Inr\<close> the content of
    the chat answer.
  \<^item> \<open>lightrag_new\<close>: the constructor \<^verbatim>\<open>LightRAG(...)\<close>: \<open>Inl\<close> the exception, \<open>Inr\<close> the graph
    the new object holds.
  \<^item> \<open>rag_aquery\<close>, \<open>rag_ainsert\<close>: the engine's answers.
  \<^item> \<open>strftime_hms\<close>, \<open>strftime_datetime\<close>, \<open>strftime_file\<close>: \<^verbatim>\<open>strftime\<close> with the formats
    \<^verbatim>\<open>%H:%M:%S\<close>, \<^verbatim>\<open>%Y-%m-%d %H:%M:%S\<close> and \<^verbatim>\<open>%Y%m%d_%H%M%S\<close>.
  \<^item> \<open>xxh64_intdigest\<close>: \<^verbatim>\<open>xxhash.xxh64(text.encode()).intdigest()\<close>.
  \<^item> \<open>api_form_submitted\<close>, \<open>api_form_key\<close>: the button and the text field of the API key form.
\<close>

record env =
  openai_probe :: "string + string"
  lightrag_new :: "string + (nat \<times> nat) option"
  rag_aquery :: "string + string"
  rag_ainsert :: "string + bool"
  strftime_hms :: string
  strftime_datetime :: string
  strftime_file :: string
  xxh64_intdigest :: "string \<Rightarrow> 64 word"
  api_form_submitted :: bool
  api_form_key :: string

subsection \<open>Activity log\<close>

definition emit :: "effect \<Rightarrow> session_state \<Rightarrow> session_state" where
  "emit e s = s\<lparr>trace := trace s @ [e]\<rparr>"

text \<open>
  \<^verbatim>\<open>add_activity_log\<close>, lines 619-633. The session always has its \<open>activity_log\<close> here: line
  648 creates it before the first call, so the branch of line 622 is never taken.
\<close>

definition add_activity_log :: "string \<Rightarrow> session_state \<Rightarrow> session_state" where
  "add_activity_log message s =
     emit (StMarkdown (backticks @ nl @ message @ nl @ backticks))
       (emit (LogAppend message)
         (s\<lparr>activity_log := py_last 50 (activity_log s @ [message])\<rparr>))"

text \<open>The session of lines 636-652; \<open>key\<close> is the environment variable \<^verbatim>\<open>OPENAI_API_KEY\<close> or the empty text.\<close>

definition default_settings :: "string \<Rightarrow> settings" where
  "default_settings key =
     \<lparr>search_mode = ''hybrid'',
      llm_model = DEFAULT_LLM_MODEL,
      embedding_model = DEFAULT_EMBEDDER_MODEL,
      system_prompt = ''You are a helpful AI assistant that answers questions based on the provided records in Obsidian markdown format with use of #wikitags and [[wikilinks]].'',
      temperature = ''0.7'',
      api_key = key\<rparr>"

definition new_session :: "string \<Rightarrow> session_state" where
  "new_session key =
     (let s = \<lparr>initialized = False, settings = default_settings key, rag = None,
               messages = [], activity_log = [], trace = []\<rparr>
      in if key \<noteq> [] then add_activity_log (info_sign @ '' Using OpenAI API key from environment'') s
         else s)"

subsection \<open>Credential probe and engine construction\<close>

text \<open>\<^verbatim>\<open>get_llm_config\<close>, lines 81-86: the completion function is always the same, the name is returned.\<close>

definition get_llm_config :: "string \<Rightarrow> string + string" where
  "get_llm_config model_name =
     (if model_name \<in> set [DEFAULT_LLM_MODEL, ''gpt-4o-mini''] then Inr model_name
      else Inl (''Unsupported LLM model: '' @ model_name))"

definition embedding_configs :: "(string \<times> nat \<times> nat) list" where
  "embedding_configs =
     [(''text-embedding-ada-002'', 1536, 8192),
      (''text-embedding-3-small'', 1536, 8191)]"

text \<open>\<^verbatim>\<open>get_embedding_config\<close>, lines 88-113.\<close>

definition get_embedding_config :: "string \<Rightarrow> string + embedding_func" where
  "get_embedding_config model_name =
     (case map_of embedding_configs model_name of
        None \<Rightarrow> Inl (''Unsupported embedding model: '' @ model_name)
      | Some (dim, max_tokens) \<Rightarrow>
          Inr \<lparr>embedding_dim = dim, max_token_size = max_tokens,
               embedding_model_name = model_name\<rparr>)"

text \<open>
  \<^verbatim>\<open>show_api_key_form\<close>, lines 159-173. The form is drawn; when it was submitted with a
  non-empty key, the key is stored, the engine is marked for reinitialisation and the run
  is abandoned by \<^verbatim>\<open>st.rerun()\<close>.
\<close>

definition show_api_key_form :: "env \<Rightarrow> session_state \<Rightarrow> unit outcome \<times> session_state" where
  "show_api_key_form ev s =
     (let s1 = emit StForm s in
      if api_form_submitted ev \<and> api_form_key ev \<noteq> [] then
        (Rerun, s1\<lparr>settings := (settings s1)\<lparr>api_key := api_form_key ev\<rparr>, initialized := False\<rparr>)
      else (Returned (), s1))"

definition key_required_text :: string where
  "key_required_text =
     nl @ ''        '' @ warning_sign @ '' OpenAI API key is required.'' @
     nl @ ''        Please enter your API key in the form below.'' @
     nl @ ''        ''"

definition api_error_text :: "string \<Rightarrow> string" where
  "api_error_text e =
     nl @ ''        '' @ warning_sign @ '' API Error. Please ensure:'' @
     nl @ ''        1. You have entered a valid OpenAI API key'' @
     nl @ ''        2. Your API key has access to the text-embedding-ada-002 model'' @
     nl @ ''        '' @
     nl @ ''        Error details: '' @ e @
     nl @ ''        ''"

text \<open>What \<^verbatim>\<open>test_api_key\<close> does after \<^verbatim>\<open>st.error\<close> on both of its failure paths: the form, then \<^verbatim>\<open>return False\<close>.\<close>

definition form_then_False :: "env \<Rightarrow> session_state \<Rightarrow> bool outcome \<times> session_state" where
  "form_then_False ev s =
     (case show_api_key_form ev s of
        (Returned u, s') \<Rightarrow> (Returned False, s')
      | (Raised e, s') \<Rightarrow> (Raised e, s')
      | (Rerun, s') \<Rightarrow> (Rerun, s'))"

text \<open>\<^verbatim>\<open>test_api_key\<close>, lines 115-157.\<close>

definition test_api_key :: "env \<Rightarrow> session_state \<Rightarrow> bool outcome \<times> session_state" where
  "test_api_key ev s =
     (if api_key (settings s) = [] then
        form_then_False ev (emit (StError key_required_text) s)
      else
        (let s1 = emit (OpenAIProbe (api_key (settings s))) s in
         case openai_probe ev of
           Inr test_response \<Rightarrow>
             (Returned True,
              add_activity_log
                (''[T] Test prompt: What is LightRAG?'' @ nl @ ''[@] '' @ take 100 test_response @ ''...'')
                s1)
         | Inl e \<Rightarrow> form_then_False ev (emit (StError (api_error_text e)) s1)))"

text \<open>
  The truth value of the graph in \<^verbatim>\<open>if graph:\<close> (line 209): \<open>None\<close> is false, and a networkx
  graph is false when it has no node (its \<^verbatim>\<open>__len__\<close> is the number of nodes).
\<close>

definition graph_truthy :: "(nat \<times> nat) option \<Rightarrow> bool" where
  "graph_truthy g = (case g of None \<Rightarrow> False | Some (nodes, edges) \<Rightarrow> nodes \<noteq> 0)"

definition log_graph_stats :: "(nat \<times> nat) option \<Rightarrow> session_state \<Rightarrow> session_state" where
  "log_graph_stats g s =
     (case g of
        None \<Rightarrow> s
      | Some (nodes, edges) \<Rightarrow>
          if graph_truthy g then
            add_activity_log
              (''[*] Records: '' @ str_nat nodes @ '' nodes, '' @ str_nat edges @ '' edges'') s
          else s)"

text \<open>
  \<^verbatim>\<open>init_rag\<close>, lines 175-214. The working directory exists when the function is reached
  (lines 55-57 create it earlier in the same run), so lines 182-183 do nothing. When the
  constructor raises, the assignment of line 196 does not happen: the session keeps the
  engine it had and stays uninitialised.
\<close>

definition init_rag :: "env \<Rightarrow> session_state \<Rightarrow> bool outcome \<times> session_state" where
  "init_rag ev s =
     (case test_api_key ev s of
        (Raised e, s1) \<Rightarrow> (Raised e, s1)
      | (Rerun, s1) \<Rightarrow> (Rerun, s1)
      | (Returned ok, s1) \<Rightarrow>
          if \<not> ok then (Returned False, s1)
          else
            (case get_llm_config (llm_model (settings s1)) of
               Inl e \<Rightarrow> (Raised e, s1)
             | Inr llm_name \<Rightarrow>
                 (case get_embedding_config (embedding_model (settings s1)) of
                    Inl e \<Rightarrow> (Raised e, s1)
                  | Inr embedding_config \<Rightarrow>
                      (let args = \<lparr>working_dir = ''./dickens'',
                                   llm_model_name = llm_name,
                                   llm_model_max_async = 4,
                                   llm_model_max_token_size = 32768,
                                   llm_model_kwargs =
                                     [(''temperature'', temperature (settings s1)),
                                      (''system_prompt'', system_prompt (settings s1)),
                                      (''api_key'', api_key (settings s1))],
                                   embedding = embedding_config\<rparr>;
                           s2 = emit (LightRAGInit args) s1
                       in case lightrag_new ev of
                            Inl e \<Rightarrow> (Raised e, s2)
                          | Inr g \<Rightarrow>
                              (Returned True,
                               log_graph_stats g
                                 (s2\<lparr>rag := Some \<lparr>built_from = args, graph = g\<rparr>,
                                     initialized := True\<rparr>))))))"

text \<open>
  The check that every run of the script makes, lines 654-657: \<^verbatim>\<open>init_rag\<close> is called when the
  session is not initialised, and its return value is dropped.
\<close>

definition ensure_ready :: "env \<Rightarrow> session_state \<Rightarrow> unit outcome \<times> session_state" where
  "ensure_ready ev s =
     (if \<not> initialized s then
        (case init_rag ev s of
           (Returned b, s') \<Rightarrow> (Returned (), s')
         | (Raised e, s') \<Rightarrow> (Raised e, s')
         | (Rerun, s') \<Rightarrow> (Rerun, s'))
      else (Returned (), s))"

text \<open>The number of \<^verbatim>\<open>LightRAG(...)\<close> calls made so far.\<close>

definition is_construction :: "effect \<Rightarrow> bool" where
  "is_construction e = (case e of LightRAGInit a \<Rightarrow> True | _ \<Rightarrow> False)"

definition constructions :: "session_state \<Rightarrow> nat" where
  "constructions s = length (filter is_construction (trace s))"

subsection \<open>Query turn\<close>

definition append_message :: "message \<Rightarrow> session_state \<Rightarrow> session_state" where
  "append_message m s = emit (MessagesAppend m) (s\<lparr>messages := messages s @ [m]\<rparr>)"

definition query_log_text :: "string \<Rightarrow> string" where
  "query_log_text prompt =
     (if length prompt > 50 then ''[?] Q: '' @ take 50 prompt @ ''...'' else ''[?] Q: '' @ prompt)"

definition answer_log_text :: "string \<Rightarrow> string" where
  "answer_log_text response =
     (if length response > 50 then ''[@] A: '' @ take 50 response @ ''...''
      else ''[@] A: '' @ response)"

text \<open>Line 686: the first 8 characters of the hexadecimal digest of the prompt.\<close>

definition prompt_hash :: "env \<Rightarrow> string \<Rightarrow> string" where
  "prompt_hash ev prompt = take 8 (hexdigest (xxh64_intdigest ev prompt))"

text \<open>Line 687.\<close>

definition query_info :: "env \<Rightarrow> settings \<Rightarrow> string \<Rightarrow> string" where
  "query_info ev st prompt =
     search_mode st @ ''@'' @ llm_model st @ '' #'' @ prompt_hash ev prompt"

definition none_has_no_aquery :: string where
  "none_has_no_aquery =
     apostrophe @ ''NoneType'' @ apostrophe @ '' object has no attribute '' @
     apostrophe @ ''aquery'' @ apostrophe"

text \<open>
  Line 683, \<^verbatim>\<open>st.session_state.rag.aquery(prompt, param=query_param)\<close>: on a session without
  engine the attribute access raises; otherwise the engine is called.
\<close>

definition call_aquery ::
  "env \<Rightarrow> string \<Rightarrow> string \<Rightarrow> session_state \<Rightarrow> (string + string) \<times> session_state" where
  "call_aquery ev prompt mode s =
     (case rag s of
        None \<Rightarrow> (Inl none_has_no_aquery, s)
      | Some eng \<Rightarrow> (rag_aquery ev, emit (EngineQuery prompt mode) s))"

text \<open>Lines 685-716, the body of the \<^verbatim>\<open>try\<close> after the engine has answered.\<close>

definition success_message :: "env \<Rightarrow> settings \<Rightarrow> string \<Rightarrow> string \<Rightarrow> message" where
  "success_message ev st prompt response =
     \<lparr>role = ''assistant'',
      content = response,
      metadata =
        [(''timestamp'', strftime_hms ev),
         (''search_mode'', search_mode st),
         (''llm_model'', llm_model st),
         (''embedding_model'', embedding_model st),
         (''temperature'', temperature st),
         (''prompt_hash'', prompt_hash ev prompt),
         (''query_info'', query_info ev st prompt)]\<rparr>"

definition query_succeeded :: "env \<Rightarrow> string \<Rightarrow> string \<Rightarrow> session_state \<Rightarrow> session_state" where
  "query_succeeded ev prompt response s =
     (let st = settings s;
          s1 = emit (StExpander (query_info ev st prompt)
                 [''**Query Details:**'',
                  ''- Search Mode: '' @ search_mode st,
                  ''- LLM Model: '' @ llm_model st,
                  ''- Embedding Model: '' @ embedding_model st,
                  ''- Temperature: '' @ temperature st,
                  ''- Prompt Hash: '' @ prompt_hash ev prompt]) s;
          s2 = append_message (success_message ev st prompt response) s1;
          s3 = emit (StWrite response) s2
      in add_activity_log (answer_log_text response) s3)"

text \<open>Lines 718-739, the \<^verbatim>\<open>except Exception as e\<close> handler; \<open>e\<close> is \<^verbatim>\<open>str(e)\<close>.\<close>

definition fallback_response :: string where
  "fallback_response = ''I apologize, but I encountered an error while processing your request.''"

definition fallback_message :: "settings \<Rightarrow> string \<Rightarrow> message" where
  "fallback_message st e =
     \<lparr>role = ''assistant'',
      content = fallback_response,
      metadata =
        [(''search_mode'', search_mode st),
         (''llm_model'', llm_model st),
         (''embedding_model'', embedding_model st),
         (''error'', e)]\<rparr>"

definition query_failed :: "string \<Rightarrow> session_state \<Rightarrow> session_state" where
  "query_failed e s =
     (let error_msg = ''Error generating response: '' @ e;
          s1 = emit (LoggerError error_msg) s;
          s2 = add_activity_log (''[!] '' @ error_msg) s1;
          s3 = append_message (fallback_message (settings s2) e) s2;
          s4 = emit (StWrite fallback_response) s3
      in add_activity_log (''[!] '' @ error_msg) s4)"

text \<open>
  Lines 665-739. \<open>prompt\<close> is what \<^verbatim>\<open>st.chat_input\<close> returned: \<open>None\<close> when nothing was sent.
  Every call that can raise stands inside the \<^verbatim>\<open>try\<close>, so the turn always returns.
\<close>

definition chat_turn :: "env \<Rightarrow> string option \<Rightarrow> session_state \<Rightarrow> unit outcome \<times> session_state" where
  "chat_turn ev prompt s =
     (case prompt of
        None \<Rightarrow> (Returned (), s)
      | Some p \<Rightarrow>
          if p = [] then (Returned (), s)
          else
            (let s1 = emit (StWrite p) s;
                 s2 = add_activity_log (query_log_text p) s1
             in case call_aquery ev p (search_mode (settings s2)) s2 of
                  (Inr response, s3) \<Rightarrow> (Returned (), query_succeeded ev p response s3)
                | (Inl e, s3) \<Rightarrow> (Returned (), query_failed e s3)))"

subsection \<open>Insert\<close>

text \<open>
  \<^verbatim>\<open>handle_insert\<close>, lines 742-767. Nothing happens on a session without engine. The rerun
  of the API key form passes through the \<^verbatim>\<open>except Exception\<close>; an exception of
  \<^verbatim>\<open>ainsert\<close> is caught there.
\<close>

definition handle_insert :: "env \<Rightarrow> string \<Rightarrow> session_state \<Rightarrow> unit outcome \<times> session_state" where
  "handle_insert ev content_text s =
     (case rag s of
        None \<Rightarrow> (Returned (), s)
      | Some eng \<Rightarrow>
          (case test_api_key ev s of
             (Rerun, s1) \<Rightarrow> (Rerun, s1)
           | (Raised e, s1) \<Rightarrow>
               (Returned (),
                add_activity_log (''[!] Insert error: '' @ e)
                  (emit (StError (''An error occurred: '' @ e))
                    (emit (LoggerException ''An error occurred during insertion.'') s1)))
           | (Returned ok, s1) \<Rightarrow>
               if \<not> ok then (Returned (), s1)
               else
                 (let s2 = add_activity_log
                             (''[*] Processing content ('' @ str_nat (length content_text) @ '' chars)...'') s1;
                      s3 = emit (EngineInsert content_text) s2
                  in case rag_ainsert ev of
                       Inr success \<Rightarrow>
                         if success then
                           (Returned (),
                            add_activity_log
                              (''[+] Added content ('' @ str_nat (length content_text) @ '' chars)'')
                              (emit (StSuccess ''Content inserted successfully!'') s3))
                         else
                           (Returned (),
                            add_activity_log ''[-] Failed to extract relationships from content''
                              (emit (StError ''Failed to insert content - no relationships extracted'') s3))
                     | Inl e \<Rightarrow>
                         (Returned (),
                          add_activity_log (''[!] Insert error: '' @ e)
                            (emit (StError (''An error occurred: '' @ e))
                              (emit (LoggerException ''An error occurred during insertion.'') s3))))))"

text \<open>
  What the user did in the "Insert Records" dialog on this run, with what the outside
  returned for it. At most one button is pressed in a run.
  \<^item> \<open>PasteInsert text\<close>: "Insert" on the Paste tab, with the content of the text area.
  \<^item> \<open>FileInsert r\<close>: "Insert File" on the Upload tab (the button exists only when a file is
    there); \<open>r\<close> is the decoded content of the file, or the exception of reading or decoding.
  \<^item> \<open>UrlInsert url r\<close>: "Insert" on the Website tab; \<open>r\<close> is \<^verbatim>\<open>response.text\<close>, or the exception
    of \<^verbatim>\<open>requests.get\<close> or \<^verbatim>\<open>raise_for_status\<close>.
  \<^item> \<open>CarolInsert r\<close>: "Insert A Christmas Carol"; \<open>r\<close> is the content of the book file, or the
    exception of opening or reading it.
  \<^item> \<open>PaperInsert r\<close>: "Insert LightRAG Paper"; \<open>r\<close> is the extracted text of each page.
\<close>

datatype pdf_read = PdfNotFound | PdfError string | PdfPages "string list"

datatype insert_click =
    NoClick
  | PasteInsert string
  | FileInsert "string + string"
  | UrlInsert string "string + string"
  | CarolInsert "string + string"
  | PaperInsert pdf_read

text \<open>The characters below 256 that \<^verbatim>\<open>str.strip\<close> removes.\<close>

definition is_space :: "char \<Rightarrow> bool" where
  "is_space c =
     (c \<in> set [CHR 0x09, CHR 0x0A, CHR 0x0B, CHR 0x0C, CHR 0x0D, CHR 0x1C, CHR 0x1D,
               CHR 0x1E, CHR 0x1F, CHR 0x20, CHR 0x85, CHR 0xA0])"

text \<open>The truth value of \<^verbatim>\<open>text.strip()\<close>.\<close>

definition strip_truthy :: "string \<Rightarrow> bool" where
  "strip_truthy text = (filter (\<lambda>c. \<not> is_space c) text \<noteq> [])"

text \<open>\<^verbatim>\<open>show_insert_dialog\<close>, lines 227-313. The tags field is read and never used.\<close>

definition show_insert_dialog :: "env \<Rightarrow> insert_click \<Rightarrow> session_state \<Rightarrow> unit outcome \<times> session_state" where
  "show_insert_dialog ev click s =
     (case click of
        NoClick \<Rightarrow> (Returned (), s)
      | PasteInsert text_input \<Rightarrow>
          if text_input \<noteq> [] then handle_insert ev text_input s else (Returned (), s)
      | FileInsert r \<Rightarrow>
          (case r of
             Inr file_content \<Rightarrow> handle_insert ev file_content s
           | Inl e \<Rightarrow> (Returned (), emit (StError (''Error inserting file: '' @ e)) s))
      | UrlInsert url r \<Rightarrow>
          if url \<noteq> [] then
            (case r of
               Inr response_text \<Rightarrow> handle_insert ev response_text s
             | Inl e \<Rightarrow> (Returned (), emit (StError (''Error inserting website content: '' @ e)) s))
          else (Returned (), s)
      | CarolInsert r \<Rightarrow>
          (case r of
             Inr book \<Rightarrow> handle_insert ev book s
           | Inl e \<Rightarrow> (Returned (), emit (StError (''Error inserting Dickens test book: '' @ e)) s))
      | PaperInsert r \<Rightarrow>
          (case r of
             PdfNotFound \<Rightarrow>
               (Returned (),
                emit (StError ''PDF file not found. Please ensure the file exists in dickens/inbox/'') s)
           | PdfError e \<Rightarrow>
               (Returned (), emit (StError (''Error inserting LightRAG whitepaper: '' @ e)) s)
           | PdfPages pages \<Rightarrow>
               (let page_texts = filter strip_truthy pages in
                if page_texts = [] then
                  (Returned (), emit (StError ''No text could be extracted from the PDF'') s)
                else handle_insert ev (join (nl @ nl) page_texts) s)))"

subsection \<open>Settings dialog\<close>

text \<open>\<^verbatim>\<open>handle_settings_update\<close>, lines 660-662.\<close>

definition handle_settings_update :: "session_state \<Rightarrow> session_state" where
  "handle_settings_update s = s\<lparr>initialized := False\<rparr>"

text \<open>
  The widgets of the settings dialog on one run: the content of the key field, what each
  select box has selected (\<open>None\<close> when the user left it alone, otherwise the position of
  the option chosen), the slider, the prompt field, and whether "Apply Settings" was pressed.
\<close>

record settings_form =
  api_key_input :: string
  llm_model_pick :: "nat option"
  embedding_model_pick :: "nat option"
  search_mode_pick :: "nat option"
  temperature_input :: string
  system_prompt_input :: string
  apply_clicked :: bool

text \<open>
  \<^verbatim>\<open>st.selectbox(label, options, index=options.index(current))\<close>: \<^verbatim>\<open>index\<close> raises
  \<^verbatim>\<open>ValueError\<close> when the current value is no option; the box returns the option selected,
  which is the current value while the user has not chosen. A box offers only its
  options, so a position outside the list stands for no choice.
\<close>

definition selectbox :: "string list \<Rightarrow> string \<Rightarrow> nat option \<Rightarrow> string + string" where
  "selectbox options current pick =
     (if current \<notin> set options then
        Inl (apostrophe @ current @ apostrophe @ '' is not in list'')
      else
        (case pick of
           None \<Rightarrow> Inr current
         | Some i \<Rightarrow> if i < length options then Inr (options ! i) else Inr current))"

text \<open>\<^verbatim>\<open>show_settings_dialog\<close>, lines 315-363.\<close>

definition show_settings_dialog :: "settings_form \<Rightarrow> session_state \<Rightarrow> unit outcome \<times> session_state" where
  "show_settings_dialog form s =
     (let s1 = (if api_key_input form \<noteq> api_key (settings s)
                then s\<lparr>settings := (settings s)\<lparr>api_key := api_key_input form\<rparr>,
                       initialized := False\<rparr>
                else s)
      in case selectbox AVAILABLE_LLM_MODELS (llm_model (settings s1)) (llm_model_pick form) of
           Inl e \<Rightarrow> (Raised e, s1)
         | Inr llm \<Rightarrow>
             (let s2 = s1\<lparr>settings := (settings s1)\<lparr>llm_model := llm\<rparr>\<rparr>
              in case selectbox AVAILABLE_EMBEDDER_MODELS (embedding_model (settings s2))
                        (embedding_model_pick form) of
                   Inl e \<Rightarrow> (Raised e, s2)
                 | Inr emb \<Rightarrow>
                     (let s3 = s2\<lparr>settings := (settings s2)\<lparr>embedding_model := emb\<rparr>\<rparr>
                      in case selectbox SEARCH_MODES (search_mode (settings s3))
                                (search_mode_pick form) of
                           Inl e \<Rightarrow> (Raised e, s3)
                         | Inr mode \<Rightarrow>
                             (let s4 = s3\<lparr>settings := (settings s3)
                                          \<lparr>search_mode := mode,
                                           temperature := temperature_input form,
                                           system_prompt := system_prompt_input form\<rparr>\<rparr>
                              in if apply_clicked form then (Rerun, handle_settings_update s4)
                                 else (Returned (), s4)))))"

subsection \<open>Export of the conversation\<close>

text \<open>\<^verbatim>\<open>dict.get(key, default)\<close> and \<^verbatim>\<open>key in dict\<close> on a metadata dict.\<close>

definition get_or :: "(string \<times> string) list \<Rightarrow> string \<Rightarrow> string \<Rightarrow> string" where
  "get_or d k dflt = (case map_of d k of None \<Rightarrow> dflt | Some v \<Rightarrow> v)"

definition has_key :: "(string \<times> string) list \<Rightarrow> string \<Rightarrow> bool" where
  "has_key d k = (map_of d k \<noteq> None)"

text \<open>Lines 472-482.\<close>

definition md_header :: "env \<Rightarrow> settings \<Rightarrow> string list" where
  "md_header ev st =
     [''# LightRAG Chat Session'' @ nl,
      ''*Exported on '' @ strftime_datetime ev @ ''*'' @ nl,
      nl @ ''## Settings'' @ nl,
      ''- Search Mode: '' @ search_mode st,
      ''- LLM Model: '' @ llm_model st,
      ''- Embedding Model: '' @ embedding_model st,
      ''- Temperature: '' @ temperature st,
      ''- System Prompt: '' @ system_prompt st @ nl,
      nl @ ''## Conversation'' @ nl]"

text \<open>Lines 486-495, the lines one message adds.\<close>

definition md_message :: "message \<Rightarrow> string list" where
  "md_message msg =
     [nl @ ''### '' @ (if role msg = ''user'' then ''User'' else ''Assistant'') @
        '' ('' @ get_or (metadata msg) ''timestamp'' ''N/A'' @ '')'',
      nl @ content msg @ nl] @
     (if role msg = ''assistant'' then
        (if has_key (metadata msg) ''query_info''
         then [nl @ ''> '' @ get_or (metadata msg) ''query_info'' []] else []) @
        (if has_key (metadata msg) ''error''
         then [nl @ ''> '' @ warning_sign @ '' Error: '' @ get_or (metadata msg) ''error'' []] else [])
      else [])"

definition md_content :: "env \<Rightarrow> session_state \<Rightarrow> string" where
  "md_content ev s = join nl (md_header ev (settings s) @ concat (map md_message (messages s)))"

text \<open>
  \<^verbatim>\<open>handle_chat_download\<close>, lines 463-505. On an empty history the function reports the
  error and returns before anything is rendered; otherwise it offers the transcript. The
  icon of the error box is not recorded.
\<close>

definition handle_chat_download :: "env \<Rightarrow> session_state \<Rightarrow> session_state" where
  "handle_chat_download ev s =
     (if messages s = [] then
        emit (StError ''No messages to download yet! Start a conversation first.'') s
      else
        emit (StDownloadButton ''Download Chat'' (md_content ev s)
                (''chat_session_'' @ strftime_file ev @ ''.md'') ''text/markdown'') s)"

section \<open>Observations\<close>

text \<open>The two effects of one \<^verbatim>\<open>add_activity_log\<close> call.\<close>

definition log_effects :: "string \<Rightarrow> effect list" where
  "log_effects m = [LogAppend m, StMarkdown (backticks @ nl @ m @ nl @ backticks)]"

text \<open>What happened between an earlier state and a later one.\<close>

definition effects_since :: "session_state \<Rightarrow> session_state \<Rightarrow> effect list" where
  "effects_since s s' = drop (length (trace s)) (trace s')"

text \<open>The messages appended to the activity log, the calls of the engine's insert, among some effects.\<close>

definition log_appends :: "effect list \<Rightarrow> string list" where
  "log_appends es = concat (map (\<lambda>e. case e of LogAppend m \<Rightarrow> [m] | _ \<Rightarrow> []) es)"

definition engine_inserts :: "effect list \<Rightarrow> string list" where
  "engine_inserts es = concat (map (\<lambda>e. case e of EngineInsert c \<Rightarrow> [c] | _ \<Rightarrow> []) es)"

definition starts_with :: "string \<Rightarrow> string \<Rightarrow> bool" where
  "starts_with pre m = (take (length pre) m = pre)"

text \<open>
  The values the three select boxes can hold. The defaults are among them and a select box
  returns one of its options, so every session the script reaches has such settings.
\<close>

definition selectable :: "settings \<Rightarrow> bool" where
  "selectable st =
     (llm_model st \<in> set AVAILABLE_LLM_MODELS \<and>
      embedding_model st \<in> set AVAILABLE_EMBEDDER_MODELS \<and>
      search_mode st \<in> set SEARCH_MODES)"

text \<open>The arguments that \<^verbatim>\<open>init_rag\<close> passes to the constructor for given settings and embedding function.\<close>

definition args_for :: "settings \<Rightarrow> embedding_func \<Rightarrow> lightrag_args" where
  "args_for st ef =
     \<lparr>working_dir = ''./dickens'',
      llm_model_name = llm_model st,
      llm_model_max_async = 4,
      llm_model_max_token_size = 32768,
      llm_model_kwargs =
        [(''temperature'', temperature st),
         (''system_prompt'', system_prompt st),
         (''api_key'', api_key st)],
      embedding = ef\<rparr>"

section \<open>Example inputs\<close>

text \<open>
  A session whose key came from the environment variable, and an outside world in which
  the probe succeeds, the constructor finds a graph of 3 nodes and 2 edges on disk, the
  engine answers \<^verbatim>\<open>world\<close> and extracts no relationship, and the API key form is left alone.
\<close>

definition example_env :: env where
  "example_env =
     \<lparr>openai_probe = Inr ''LightRAG is a retrieval framework.'',
      lightrag_new = Inr (Some (3, 2)),
      rag_aquery = Inr ''world'',
      rag_ainsert = Inr False,
      strftime_hms = ''12:00:00'',
      strftime_datetime = ''2024-11-09 12:00:00'',
      strftime_file = ''20241109_120000'',
      xxh64_intdigest = (\<lambda>text. 0xEF46DB3751D8E999),
      api_form_submitted = False,
      api_form_key = []\<rparr>"

definition example_session :: session_state where
  "example_session = new_session ''sk-test''"

text \<open>The same session after its first run has built the engine.\<close>

definition ready_session :: session_state where
  "ready_session = snd (ensure_ready example_env example_session)"

text \<open>A session with two messages: one answered turn, then one turn on which the engine raised.\<close>

definition two_turn_session :: session_state where
  "two_turn_session =
     snd (chat_turn (example_env\<lparr>rag_aquery := Inl ''timed out''\<rparr>) (Some ''and again'')
            (snd (chat_turn example_env (Some ''hello'') ready_session)))"

text \<open>
  The settings dialog as it is drawn for the example session when the user touches
  nothing, with the key changed, with the second LLM model chosen, and with the second LLM
  model chosen and "Apply Settings" pressed.
\<close>

definition untouched_form :: settings_form where
  "untouched_form =
     \<lparr>api_key_input = ''sk-test'',
      llm_model_pick = None,
      embedding_model_pick = None,
      search_mode_pick = None,
      temperature_input = ''0.7'',
      system_prompt_input = system_prompt (default_settings ''sk-test''),
      apply_clicked = False\<rparr>"

definition wrong_key_form :: settings_form where
  "wrong_key_form = untouched_form\<lparr>api_key_input := ''sk-wrong''\<rparr>"

definition other_model_form :: settings_form where
  "other_model_form = untouched_form\<lparr>llm_model_pick := Some 1\<rparr>"

definition apply_model_form :: settings_form where
  "apply_model_form = other_model_form\<lparr>apply_clicked := True\<rparr>"

text \<open>An outside world in which the provider rejects the key.\<close>

definition bad_key_env :: env where
  "bad_key_env = example_env\<lparr>openai_probe := Inl ''Incorrect API key provided''\<rparr>"

section \<open>Properties\<close>

subsection \<open>Field lemmas\<close>

lemma emit_fields [simp]:
  "initialized (emit e s) = initialized s"
  "settings (emit e s) = settings s"
  "rag (emit e s) = rag s"
  "messages (emit e s) = messages s"
  "activity_log (emit e s) = activity_log s"
  "trace (emit e s) = trace s @ [e]"
  by (simp_all add: emit_def)

lemma add_activity_log_fields [simp]:
  "initialized (add_activity_log m s) = initialized s"
  "settings (add_activity_log m s) = settings s"
  "rag (add_activity_log m s) = rag s"
  "messages (add_activity_log m s) = messages s"
  "activity_log (add_activity_log m s) = py_last 50 (activity_log s @ [m])"
  "trace (add_activity_log m s) = trace s @ log_effects m"
  by (simp_all add: add_activity_log_def log_effects_def)

lemma new_session_empty [simp]:
  "new_session [] =
     \<lparr>initialized = False, settings = default_settings [], rag = None,
      messages = [], activity_log = [], trace = []\<rparr>"
  by (simp add: new_session_def)

subsection \<open>The activity log is a queue of at most 50 entries\<close>

lemma py_last_length: "length (py_last n xs) \<le> n"
  by (simp add: py_last_def)

lemma py_last_absorb: "py_last n (py_last n xs @ ys) = py_last n (xs @ ys)"
proof (cases "length xs \<le> n")
  case True
  then show ?thesis by (simp add: py_last_def)
next
  case False
  then have a: "length xs - n + n = length xs"
    and b: "length ys + (length xs - n) = length xs + length ys - n" by simp_all
  show ?thesis by (simp add: py_last_def a b)
qed

lemma activity_log_fold:
  "activity_log (fold add_activity_log msgs s) =
     (if msgs = [] then activity_log s else py_last 50 (activity_log s @ msgs))"
proof (induction msgs arbitrary: s)
  case Nil
  show ?case by simp
next
  case (Cons m ms)
  show ?case
    using py_last_absorb [of 50 "activity_log s @ [m]" ms]
    by (simp add: Cons.IH)
qed

text \<open>
  C3. Whatever messages are appended, in whatever number, to a log that holds at most 50
  entries (the log of a new session is empty), the log holds at most 50 entries afterwards;
  and when more than 50 messages were appended, the log is exactly the last 50 of them, in
  the order in which they were appended.
\<close>

theorem activity_log_capped_fifo:
  "length (activity_log s) \<le> 50 \<Longrightarrow>
     length (activity_log (fold add_activity_log msgs s)) \<le> 50 \<and>
     (50 < length msgs \<longrightarrow>
        activity_log (fold add_activity_log msgs s) = drop (length msgs - 50) msgs)"
  by (simp add: activity_log_fold py_last_length) (simp add: py_last_def)

theorem activity_log_capped_fifo_witness:
  "length (activity_log (new_session [])) \<le> 50 \<and>
   50 < length (map str_nat [0..<51]) \<and>
   length (activity_log (fold add_activity_log (map str_nat [0..<51]) (new_session []))) \<le> 50 \<and>
   activity_log (fold add_activity_log (map str_nat [0..<51]) (new_session [])) =
     map str_nat [1..<51]"
  using activity_log_capped_fifo [of "new_session []" "map str_nat [0..<51]"]
  by (simp add: drop_map)

subsection \<open>Credential probe and construction, case by case\<close>

lemma constructions_emit [simp]:
  "constructions (emit e s) = (if is_construction e then Suc (constructions s) else constructions s)"
  by (simp add: constructions_def)

lemma log_effects_no_construction [simp]: "filter is_construction (log_effects m) = []"
  by (simp add: log_effects_def is_construction_def)

lemma constructions_add_activity_log [simp]:
  "constructions (add_activity_log m s) = constructions s"
  by (simp add: constructions_def is_construction_def)

lemma constructions_update [simp]:
  "constructions (s\<lparr>initialized := b\<rparr>) = constructions s"
  "constructions (s\<lparr>settings := st\<rparr>) = constructions s"
  "constructions (s\<lparr>rag := r\<rparr>) = constructions s"
  "constructions (s\<lparr>messages := ms\<rparr>) = constructions s"
  by (simp_all add: constructions_def)

lemma is_construction_simps [simp]:
  "is_construction (LightRAGInit a)"
  "\<not> is_construction (StError t)"
  "\<not> is_construction StForm"
  "\<not> is_construction (OpenAIProbe k)"
  by (simp_all add: is_construction_def)

lemma log_graph_stats_fields [simp]:
  "initialized (log_graph_stats g s) = initialized s"
  "settings (log_graph_stats g s) = settings s"
  "rag (log_graph_stats g s) = rag s"
  "messages (log_graph_stats g s) = messages s"
  "constructions (log_graph_stats g s) = constructions s"
  by (simp_all add: log_graph_stats_def split: option.splits prod.splits)


lemma form_then_False_eq:
  "form_then_False ev s =
     (if api_form_submitted ev \<and> api_form_key ev \<noteq> [] then
        (Rerun, (emit StForm s)\<lparr>settings := (settings s)\<lparr>api_key := api_form_key ev\<rparr>,
                                 initialized := False\<rparr>)
      else (Returned False, emit StForm s))"
  by (simp add: form_then_False_def show_api_key_form_def Let_def)

lemma test_api_key_ok:
  "api_key (settings s) \<noteq> [] \<Longrightarrow> openai_probe ev = Inr t \<Longrightarrow>
   test_api_key ev s =
     (Returned True,
      add_activity_log
        (''[T] Test prompt: What is LightRAG?'' @ nl @ ''[@] '' @ take 100 t @ ''...'')
        (emit (OpenAIProbe (api_key (settings s))) s))"
  by (simp add: test_api_key_def)

lemma test_api_key_empty:
  "api_key (settings s) = [] \<Longrightarrow>
   test_api_key ev s = form_then_False ev (emit (StError key_required_text) s)"
  by (simp add: test_api_key_def)

lemma test_api_key_rejected:
  "api_key (settings s) \<noteq> [] \<Longrightarrow> openai_probe ev = Inl e \<Longrightarrow>
   test_api_key ev s =
     form_then_False ev
       (emit (StError (api_error_text e)) (emit (OpenAIProbe (api_key (settings s))) s))"
  by (simp add: test_api_key_def)

lemma test_api_key_never_raises: "fst (test_api_key ev s) \<noteq> Raised e"
  by (simp add: test_api_key_def form_then_False_eq Let_def split: sum.splits)

lemma test_api_key_keeps:
  "rag (snd (test_api_key ev s)) = rag s"
  "messages (snd (test_api_key ev s)) = messages s"
  "constructions (snd (test_api_key ev s)) = constructions s"
  by (simp_all add: test_api_key_def form_then_False_eq Let_def split: sum.splits)

lemma test_api_key_True:
  "test_api_key ev s = (Returned True, s1) \<Longrightarrow>
     api_key (settings s) \<noteq> [] \<and> (\<exists>t. openai_probe ev = Inr t) \<and>
     initialized s1 = initialized s \<and> settings s1 = settings s"
  by (auto simp add: test_api_key_def form_then_False_eq Let_def split: sum.splits if_splits)

lemma test_api_key_uninitialized:
  "\<not> initialized s \<Longrightarrow> \<not> initialized (snd (test_api_key ev s))"
  by (simp add: test_api_key_def form_then_False_eq Let_def split: sum.splits)

lemma init_rag_success:
  assumes "\<not> initialized s" and "init_rag ev s = (r, s1)" and "initialized s1"
  shows "r = Returned True \<and> constructions s1 = Suc (constructions s) \<and> rag s1 \<noteq> None"
proof -
  obtain r0 s0 where t: "test_api_key ev s = (r0, s0)" by (cases "test_api_key ev s")
  have u: "\<not> initialized s0" and c: "constructions s0 = constructions s"
    using test_api_key_uninitialized [OF assms(1), of ev] test_api_key_keeps(3) [of ev s] t
    by simp_all
  show ?thesis
    using assms(2,3) u c t
    by (auto simp add: init_rag_def Let_def split: outcome.splits if_splits sum.splits)
qed

subsection \<open>An initialised session is not rebuilt\<close>

lemma ensure_ready_initialized: "initialized s \<Longrightarrow> ensure_ready ev s = (Returned (), s)"
  by (simp add: ensure_ready_def)

text \<open>
  C1. Take a run that starts uninitialised and whose check ends with the session
  initialised (a successful initialisation). That check returned, it made exactly one
  call of the constructor and the session holds an engine. The check of the next run,
  whatever the outside would answer then, returns the very same session (engine, settings
  and all) and makes no call at all, so that the two checks together made one construction.
  The script decides this on the flag \<open>initialized\<close> alone; it keeps no copy of the settings
  the engine was built from.
\<close>

theorem ensure_ready_builds_once:
  assumes "\<not> initialized s" and "ensure_ready ev1 s = (r, s1)" and "initialized s1"
  shows "r = Returned () \<and> constructions s1 = constructions s + 1 \<and> rag s1 \<noteq> None \<and>
         ensure_ready ev2 s1 = (Returned (), s1) \<and>
         constructions (snd (ensure_ready ev2 s1)) = constructions s + 1"
proof -
  obtain r0 where i: "init_rag ev1 s = (r0, s1)" and r: "r = (case r0 of Returned b \<Rightarrow> Returned () | Raised e \<Rightarrow> Raised e | Rerun \<Rightarrow> Rerun)"
    using assms(1,2) by (auto simp add: ensure_ready_def split: prod.splits outcome.splits)
  from init_rag_success [OF assms(1) i assms(3)] r
  show ?thesis by (simp add: ensure_ready_initialized [OF assms(3)])
qed



subsection \<open>The example inputs, evaluated\<close>

lemma example_session_fields [simp]:
  "initialized example_session = False"
  "settings example_session = default_settings ''sk-test''"
  "rag example_session = None"
  "messages example_session = []"
  "constructions example_session = 0"
  by (simp_all add: example_session_def new_session_def constructions_def is_construction_def)

lemma example_env_fields [simp]:
  "openai_probe example_env = Inr ''LightRAG is a retrieval framework.''"
  "lightrag_new example_env = Inr (Some (3, 2))"
  "rag_aquery example_env = Inr ''world''"
  "rag_ainsert example_env = Inr False"
  "strftime_hms example_env = ''12:00:00''"
  "strftime_datetime example_env = ''2024-11-09 12:00:00''"
  "strftime_file example_env = ''20241109_120000''"
  "xxh64_intdigest example_env = (\<lambda>text. 0xEF46DB3751D8E999)"
  "api_form_submitted example_env = False"
  "api_form_key example_env = []"
  by (simp_all add: example_env_def)

lemma default_settings_fields [simp]:
  "search_mode (default_settings k) = ''hybrid''"
  "llm_model (default_settings k) = DEFAULT_LLM_MODEL"
  "embedding_model (default_settings k) = DEFAULT_EMBEDDER_MODEL"
  "temperature (default_settings k) = ''0.7''"
  "api_key (default_settings k) = k"
  by (simp_all add: default_settings_def)

lemma default_models_supported [simp]:
  "get_llm_config DEFAULT_LLM_MODEL = Inr DEFAULT_LLM_MODEL"
  "get_embedding_config DEFAULT_EMBEDDER_MODEL =
     Inr \<lparr>embedding_dim = 1536, max_token_size = 8192,
          embedding_model_name = DEFAULT_EMBEDDER_MODEL\<rparr>"
  by (simp_all add: get_llm_config_def get_embedding_config_def embedding_configs_def
        DEFAULT_EMBEDDER_MODEL_def)

lemma example_init:
  "initialized (snd (ensure_ready example_env example_session))"
  by (simp add: ensure_ready_def init_rag_def test_api_key_ok Let_def split: prod.splits)

theorem ensure_ready_builds_once_witness:
  "\<not> initialized example_session \<and>
   initialized (snd (ensure_ready example_env example_session)) \<and>
   fst (ensure_ready example_env example_session) = Returned () \<and>
   constructions (snd (ensure_ready example_env example_session)) = 1 \<and>
   ensure_ready example_env (snd (ensure_ready example_env example_session)) =
     (Returned (), snd (ensure_ready example_env example_session)) \<and>
   constructions (snd (ensure_ready example_env (snd (ensure_ready example_env example_session)))) = 1"
proof -
  have h1: "\<not> initialized example_session" by simp
  have h2: "ensure_ready example_env example_session =
              (fst (ensure_ready example_env example_session),
               snd (ensure_ready example_env example_session))" by simp
  show ?thesis
    using ensure_ready_builds_once [OF h1 h2 example_init, of example_env] h1 example_init
    by simp
qed



lemma ready_session_fields [simp]:
  "initialized ready_session"
  "settings ready_session = default_settings ''sk-test''"
  "rag ready_session =
     Some \<lparr>built_from = args_for (default_settings ''sk-test'')
                          \<lparr>embedding_dim = 1536, max_token_size = 8192,
                           embedding_model_name = DEFAULT_EMBEDDER_MODEL\<rparr>,
           graph = Some (3, 2)\<rparr>"
  "messages ready_session = []"
  "constructions ready_session = 1"
  by (simp_all add: ready_session_def ensure_ready_def init_rag_def test_api_key_ok Let_def
        args_for_def default_settings_def split: prod.splits)

subsection \<open>No engine without a verified credential\<close>

text \<open>
  C6. When the key is empty, or the probe (one embedding request and one chat request)
  raises, \<^verbatim>\<open>init_rag\<close> reports the error, draws the API key form and returns \<open>False\<close>; the only
  other way it ends is the rerun that the form itself starts when a new key has just been
  submitted. With an empty key not even the probe is sent. The constructor is not called
  and the session keeps the engine it had, which is none in a session that was never
  initialised. The same holds for the check of lines 654-657, which calls \<^verbatim>\<open>init_rag\<close> when
  the session is not initialised and otherwise calls nothing.
\<close>

theorem invalid_credential_builds_nothing:
  assumes "api_key (settings s) = [] \<or> isl (openai_probe ev)"
  shows "fst (init_rag ev s) =
           (if api_form_submitted ev \<and> api_form_key ev \<noteq> [] then Rerun else Returned False) \<and>
         effects_since s (snd (init_rag ev s)) =
           (if api_key (settings s) = [] then [StError key_required_text, StForm]
            else [OpenAIProbe (api_key (settings s)),
                  StError (api_error_text (projl (openai_probe ev))), StForm]) \<and>
         rag (snd (init_rag ev s)) = rag s \<and>
         constructions (snd (init_rag ev s)) = constructions s \<and>
         rag (snd (ensure_ready ev s)) = rag s \<and>
         constructions (snd (ensure_ready ev s)) = constructions s \<and>
         initialized (snd (ensure_ready ev s)) = initialized s"
proof (cases "api_key (settings s) = []")
  case True
  show ?thesis
    by (simp add: ensure_ready_def init_rag_def test_api_key_empty [OF True] form_then_False_eq
          effects_since_def True split: prod.splits)
next
  case False
  with assms obtain e where e: "openai_probe ev = Inl e" by (cases "openai_probe ev") auto
  show ?thesis
    by (simp add: ensure_ready_def init_rag_def test_api_key_rejected [OF False e]
          form_then_False_eq effects_since_def False e split: prod.splits)
qed

theorem invalid_credential_builds_nothing_witness:
  "isl (openai_probe (example_env\<lparr>openai_probe := Inl ''401 Unauthorized''\<rparr>)) \<and>
   fst (init_rag (example_env\<lparr>openai_probe := Inl ''401 Unauthorized''\<rparr>) example_session) =
     Returned False \<and>
   effects_since example_session
     (snd (init_rag (example_env\<lparr>openai_probe := Inl ''401 Unauthorized''\<rparr>) example_session)) =
     [OpenAIProbe ''sk-test'', StError (api_error_text ''401 Unauthorized''), StForm] \<and>
   rag (snd (ensure_ready (example_env\<lparr>openai_probe := Inl ''401 Unauthorized''\<rparr>) example_session)) = None \<and>
   constructions (snd (ensure_ready (example_env\<lparr>openai_probe := Inl ''401 Unauthorized''\<rparr>) example_session)) = 0 \<and>
   api_key (settings (new_session [])) = [] \<and>
   fst (init_rag example_env (new_session [])) = Returned False \<and>
   effects_since (new_session []) (snd (init_rag example_env (new_session []))) =
     [StError key_required_text, StForm]"
  using invalid_credential_builds_nothing
          [of example_session "example_env\<lparr>openai_probe := Inl ''401 Unauthorized''\<rparr>"]
        invalid_credential_builds_nothing [of "new_session []" example_env]
  by (simp add: example_env_def)

subsection \<open>Insert\<close>

text \<open>
  C9. On a session without engine \<^verbatim>\<open>handle_insert\<close> returns at once and leaves the session as
  it was: no probe, no engine call, no entry in the activity log, no error shown.
\<close>

theorem insert_without_engine_is_silent:
  "rag s = None \<Longrightarrow> handle_insert ev content_text s = (Returned (), s)"
  by (simp add: handle_insert_def)

theorem insert_without_engine_is_silent_witness:
  "rag example_session = None \<and>
   handle_insert example_env ''Marley was dead: to begin with.'' example_session =
     (Returned (), example_session)"
  using insert_without_engine_is_silent [of example_session example_env]
  by simp

subsection \<open>Query turn\<close>

lemma effects_since_append [simp]: "trace s' = trace s @ es \<Longrightarrow> effects_since s s' = es"
  by (simp add: effects_since_def)

lemma append_message_fields [simp]:
  "initialized (append_message m s) = initialized s"
  "settings (append_message m s) = settings s"
  "rag (append_message m s) = rag s"
  "messages (append_message m s) = messages s @ [m]"
  "activity_log (append_message m s) = activity_log s"
  "trace (append_message m s) = trace s @ [MessagesAppend m]"
  by (simp_all add: append_message_def)

lemma call_aquery_fst:
  "fst (call_aquery ev p mode s) =
     (case rag s of None \<Rightarrow> Inl none_has_no_aquery | Some eng \<Rightarrow> rag_aquery ev)"
  by (simp add: call_aquery_def split: option.splits)

lemma call_aquery_fields [simp]:
  "initialized (snd (call_aquery ev p mode s)) = initialized s"
  "settings (snd (call_aquery ev p mode s)) = settings s"
  "rag (snd (call_aquery ev p mode s)) = rag s"
  "messages (snd (call_aquery ev p mode s)) = messages s"
  "activity_log (snd (call_aquery ev p mode s)) = activity_log s"
  "trace (snd (call_aquery ev p mode s)) =
     trace s @ (case rag s of None \<Rightarrow> [] | Some eng \<Rightarrow> [EngineQuery p mode])"
  by (simp_all add: call_aquery_def split: option.splits)

lemma query_failed_fields [simp]:
  "initialized (query_failed e s) = initialized s"
  "settings (query_failed e s) = settings s"
  "rag (query_failed e s) = rag s"
  "messages (query_failed e s) = messages s @ [fallback_message (settings s) e]"
  "trace (query_failed e s) =
     trace s @ [LoggerError (''Error generating response: '' @ e)] @
     log_effects (''[!] Error generating response: '' @ e) @
     [MessagesAppend (fallback_message (settings s) e), StWrite fallback_response] @
     log_effects (''[!] Error generating response: '' @ e)"
  by (simp_all add: query_failed_def Let_def)

lemma query_succeeded_fields [simp]:
  "initialized (query_succeeded ev p r s) = initialized s"
  "settings (query_succeeded ev p r s) = settings s"
  "rag (query_succeeded ev p r s) = rag s"
  "messages (query_succeeded ev p r s) = messages s @ [success_message ev (settings s) p r]"
  by (simp_all add: query_succeeded_def Let_def)

lemma chat_turn_eq:
  "p \<noteq> [] \<Longrightarrow>
   chat_turn ev (Some p) s =
     (let s2 = add_activity_log (query_log_text p) (emit (StWrite p) s);
          s3 = snd (call_aquery ev p (search_mode (settings s)) s2)
      in case fst (call_aquery ev p (search_mode (settings s)) s) of
           Inr response \<Rightarrow> (Returned (), query_succeeded ev p response s3)
         | Inl e \<Rightarrow> (Returned (), query_failed e s3))"
  by (simp add: chat_turn_def Let_def call_aquery_def split: option.splits sum.splits prod.splits)

lemma chat_turn_returns: "fst (chat_turn ev prompt s) = Returned ()"
  by (simp add: chat_turn_def Let_def split: option.splits sum.splits prod.splits)

lemma log_appends_simps [simp]:
  "log_appends [] = []"
  "log_appends (xs @ ys) = log_appends xs @ log_appends ys"
  "log_appends (log_effects m) = [m]"
  "log_appends (LogAppend m # es) = m # log_appends es"
  "log_appends (StWrite t # es) = log_appends es"
  "log_appends (StError t # es) = log_appends es"
  "log_appends (StSuccess t # es) = log_appends es"
  "log_appends (StMarkdown t # es) = log_appends es"
  "log_appends (StForm # es) = log_appends es"
  "log_appends (LoggerError t # es) = log_appends es"
  "log_appends (LoggerException t # es) = log_appends es"
  "log_appends (OpenAIProbe t # es) = log_appends es"
  "log_appends (EngineQuery t u # es) = log_appends es"
  "log_appends (EngineInsert t # es) = log_appends es"
  "log_appends (MessagesAppend msg # es) = log_appends es"
  by (simp_all add: log_appends_def log_effects_def)

lemma starts_with_simps [simp]:
  "starts_with [] m"
  "starts_with (a # as) (b # bs) = (a = b \<and> starts_with as bs)"
  "\<not> starts_with (a # as) []"
  by (auto simp add: starts_with_def)

lemma query_log_text_prefix [simp]: "\<not> starts_with ''[!]'' (query_log_text p)"
  by (simp add: query_log_text_def)

lemma query_failed_log:
  "activity_log (query_failed e s) =
     py_last 50 (activity_log s @
       [''[!] Error generating response: '' @ e, ''[!] Error generating response: '' @ e])"
  using py_last_absorb [of 50 "activity_log s @ [''[!] Error generating response: '' @ e]"
          "[''[!] Error generating response: '' @ e]"]
  by (simp add: query_failed_def Let_def)

lemma failed_turn_log:
  assumes "p \<noteq> []" and "fst (call_aquery ev p (search_mode (settings s)) s) = Inl e"
  shows "activity_log (snd (chat_turn ev (Some p) s)) =
           py_last 50 (activity_log s @
             [query_log_text p, ''[!] Error generating response: '' @ e,
              ''[!] Error generating response: '' @ e])"
  using assms
        py_last_absorb [of 50 "activity_log s @ [query_log_text p]"
          "[''[!] Error generating response: '' @ e, ''[!] Error generating response: '' @ e]"]
  by (simp add: chat_turn_eq Let_def query_failed_log)

text \<open>
  C10. When the query call raises (the engine raises, or the session has no engine and the
  attribute access raises), the turn does the following, in this order: it writes the
  prompt, logs the question, calls the engine (if there is one), passes the error text to
  the logger, logs it with the prefix \<^verbatim>\<open>[!]\<close>, appends the fallback message to the history,
  writes the apology, and logs the same error text with the prefix \<^verbatim>\<open>[!]\<close> once more. Of the
  three entries the turn appends to the activity log, exactly the two error entries start
  with \<^verbatim>\<open>[!]\<close>; they are equal, one before the history append and one after it. The stored
  log afterwards is the last 50 of the old log followed by the question and the two error
  entries, the history is the old history followed by the fallback message, and the whole
  session is what these steps, applied one after the other, make of the session at the start.
\<close>

theorem failed_query_logs_error_twice:
  assumes "p \<noteq> []" and "fst (call_aquery ev p (search_mode (settings s)) s) = Inl e"
  shows "effects_since s (snd (chat_turn ev (Some p) s)) =
           [StWrite p] @ log_effects (query_log_text p) @
           (case rag s of None \<Rightarrow> [] | Some eng \<Rightarrow> [EngineQuery p (search_mode (settings s))]) @
           [LoggerError (''Error generating response: '' @ e)] @
           log_effects (''[!] Error generating response: '' @ e) @
           [MessagesAppend (fallback_message (settings s) e), StWrite fallback_response] @
           log_effects (''[!] Error generating response: '' @ e) \<and>
         filter (starts_with ''[!]'')
           (log_appends (effects_since s (snd (chat_turn ev (Some p) s)))) =
           [''[!] Error generating response: '' @ e, ''[!] Error generating response: '' @ e] \<and>
         activity_log (snd (chat_turn ev (Some p) s)) =
           py_last 50 (activity_log s @
             [query_log_text p, ''[!] Error generating response: '' @ e,
              ''[!] Error generating response: '' @ e]) \<and>
         messages (snd (chat_turn ev (Some p) s)) =
           messages s @ [fallback_message (settings s) e] \<and>
         snd (chat_turn ev (Some p) s) =
           add_activity_log (''[!] Error generating response: '' @ e)
             (emit (StWrite fallback_response)
               (append_message (fallback_message (settings s) e)
                 (add_activity_log (''[!] Error generating response: '' @ e)
                   (emit (LoggerError (''Error generating response: '' @ e))
                     (snd (call_aquery ev p (search_mode (settings s))
                            (add_activity_log (query_log_text p) (emit (StWrite p) s))))))))"
proof -
  have t: "trace (snd (chat_turn ev (Some p) s)) = trace s @
           ([StWrite p] @ log_effects (query_log_text p) @
           (case rag s of None \<Rightarrow> [] | Some eng \<Rightarrow> [EngineQuery p (search_mode (settings s))]) @
           [LoggerError (''Error generating response: '' @ e)] @
           log_effects (''[!] Error generating response: '' @ e) @
           [MessagesAppend (fallback_message (settings s) e), StWrite fallback_response] @
           log_effects (''[!] Error generating response: '' @ e))"
    using assms by (simp add: chat_turn_eq Let_def)
  have a: "effects_since s (snd (chat_turn ev (Some p) s)) =
           [StWrite p] @ log_effects (query_log_text p) @
           (case rag s of None \<Rightarrow> [] | Some eng \<Rightarrow> [EngineQuery p (search_mode (settings s))]) @
           [LoggerError (''Error generating response: '' @ e)] @
           log_effects (''[!] Error generating response: '' @ e) @
           [MessagesAppend (fallback_message (settings s) e), StWrite fallback_response] @
           log_effects (''[!] Error generating response: '' @ e)"
    by (rule effects_since_append [OF t])
  have b: "filter (starts_with ''[!]'')
           (log_appends (effects_since s (snd (chat_turn ev (Some p) s)))) =
           [''[!] Error generating response: '' @ e, ''[!] Error generating response: '' @ e]"
    unfolding a by (simp split: option.splits)
  have m: "messages (snd (chat_turn ev (Some p) s)) =
           messages s @ [fallback_message (settings s) e]"
    using assms by (simp add: chat_turn_eq Let_def)
  have c: "snd (chat_turn ev (Some p) s) =
           add_activity_log (''[!] Error generating response: '' @ e)
             (emit (StWrite fallback_response)
               (append_message (fallback_message (settings s) e)
                 (add_activity_log (''[!] Error generating response: '' @ e)
                   (emit (LoggerError (''Error generating response: '' @ e))
                     (snd (call_aquery ev p (search_mode (settings s))
                            (add_activity_log (query_log_text p) (emit (StWrite p) s))))))))"
    using assms by (simp add: chat_turn_eq Let_def query_failed_def)
  show ?thesis
    using a b m c failed_turn_log [OF assms] by (intro conjI)
qed

lemma example_env_raising [simp]:
  "rag_aquery (example_env\<lparr>rag_aquery := r\<rparr>) = r"
  "strftime_hms (example_env\<lparr>rag_aquery := r\<rparr>) = ''12:00:00''"
  by (simp_all add: example_env_def)

lemma ready_session_rag_case [simp]:
  "(case rag ready_session of None \<Rightarrow> a | Some eng \<Rightarrow> b) = b"
  by simp

lemma ready_session_log [simp]:
  "activity_log ready_session =
     [info_sign @ '' Using OpenAI API key from environment'',
      ''[T] Test prompt: What is LightRAG?'' @ nl @ ''[@] LightRAG is a retrieval framework....'',
      ''[*] Records: 3 nodes, 2 edges'']"
  by (simp add: ready_session_def ensure_ready_def init_rag_def test_api_key_ok Let_def
        example_session_def new_session_def log_graph_stats_def graph_truthy_def py_last_def
        str_nat.simps digit_char_def split: prod.splits)

theorem failed_query_logs_error_twice_witness:
  "''hello'' \<noteq> [] \<and>
   fst (call_aquery (example_env\<lparr>rag_aquery := Inl ''timed out''\<rparr>) ''hello''
          (search_mode (settings ready_session)) ready_session) = Inl ''timed out'' \<and>
   log_appends (effects_since ready_session
      (snd (chat_turn (example_env\<lparr>rag_aquery := Inl ''timed out''\<rparr>) (Some ''hello'') ready_session))) =
     [''[?] Q: hello'', ''[!] Error generating response: timed out'',
      ''[!] Error generating response: timed out''] \<and>
   filter (starts_with ''[!]'')
     (log_appends (effects_since ready_session
        (snd (chat_turn (example_env\<lparr>rag_aquery := Inl ''timed out''\<rparr>) (Some ''hello'') ready_session)))) =
     [''[!] Error generating response: timed out'', ''[!] Error generating response: timed out''] \<and>
   activity_log ready_session =
     [info_sign @ '' Using OpenAI API key from environment'',
      ''[T] Test prompt: What is LightRAG?'' @ nl @ ''[@] LightRAG is a retrieval framework....'',
      ''[*] Records: 3 nodes, 2 edges''] \<and>
   activity_log
     (snd (chat_turn (example_env\<lparr>rag_aquery := Inl ''timed out''\<rparr>) (Some ''hello'') ready_session)) =
     [info_sign @ '' Using OpenAI API key from environment'',
      ''[T] Test prompt: What is LightRAG?'' @ nl @ ''[@] LightRAG is a retrieval framework....'',
      ''[*] Records: 3 nodes, 2 edges'',
      ''[?] Q: hello'', ''[!] Error generating response: timed out'',
      ''[!] Error generating response: timed out'']"
proof -
  have h: "fst (call_aquery (example_env\<lparr>rag_aquery := Inl ''timed out''\<rparr>) ''hello''
          (search_mode (settings ready_session)) ready_session) = Inl ''timed out''"
    by (simp add: call_aquery_fst)
  have g: "activity_log
     (snd (chat_turn (example_env\<lparr>rag_aquery := Inl ''timed out''\<rparr>) (Some ''hello'') ready_session)) =
     [info_sign @ '' Using OpenAI API key from environment'',
      ''[T] Test prompt: What is LightRAG?'' @ nl @ ''[@] LightRAG is a retrieval framework....'',
      ''[*] Records: 3 nodes, 2 edges'',
      ''[?] Q: hello'', ''[!] Error generating response: timed out'',
      ''[!] Error generating response: timed out'']"
    using failed_query_logs_error_twice [OF _ h]
    by (simp add: query_log_text_def py_last_def)
  have f: "log_appends (effects_since ready_session
      (snd (chat_turn (example_env\<lparr>rag_aquery := Inl ''timed out''\<rparr>) (Some ''hello'') ready_session))) =
     [''[?] Q: hello'', ''[!] Error generating response: timed out'',
      ''[!] Error generating response: timed out'']"
    using failed_query_logs_error_twice [OF _ h]
    by (simp add: query_log_text_def)
  show ?thesis
    using failed_query_logs_error_twice [OF _ h] h g f
    by simp
qed

subsection \<open>The prompt fingerprint\<close>

lemma hexdigest_length: "length (hexdigest w) = 16"
  by (simp add: hexdigest_def)

lemma digit_char_hex: "n < 16 \<Longrightarrow> is_hex_char (digit_char n)"
proof -
  assume "n < 16"
  then have "n < length ''0123456789abcdef''" by simp
  then have "''0123456789abcdef'' ! n \<in> set ''0123456789abcdef''" by (rule nth_mem)
  then show ?thesis by (simp only: is_hex_char_def digit_char_def)
qed

lemma hexdigest_hex: "list_all is_hex_char (hexdigest w)"
  by (simp add: hexdigest_def list_all_iff digit_char_hex)

lemma prompt_hash_length: "length (prompt_hash ev p) = 8"
  by (simp add: prompt_hash_def hexdigest_length)

lemma prompt_hash_hex: "list_all is_hex_char (prompt_hash ev p)"
  using hexdigest_hex [of "xxh64_intdigest ev p"]
  by (auto simp add: prompt_hash_def list_all_iff dest: in_set_takeD)

subsection \<open>The message a turn appends\<close>

text \<open>
  C2, as the script has it. A turn always returns, whatever the prompt and whatever the
  engine does. When the query call raises, the turn appends exactly one message to the
  history: its role is \<^verbatim>\<open>assistant\<close>, its content is the fixed apology, and its metadata
  holds the current search mode, LLM model and embedding model under their keys and \<^verbatim>\<open>str(e)\<close>
  under the key \<^verbatim>\<open>error\<close>. That key is always there, and its value is \<^verbatim>\<open>str(e)\<close> as it is: the
  empty text for an exception raised without a message. There is no key \<^verbatim>\<open>query_info\<close>.
\<close>

theorem failed_query_appends_fallback:
  assumes "p \<noteq> []" and "fst (call_aquery ev p (search_mode (settings s)) s) = Inl e"
  shows "fst (chat_turn ev prompt s) = Returned () \<and>
         (\<exists>md. messages (snd (chat_turn ev (Some p) s)) =
                 messages s @
                 [\<lparr>role = ''assistant'',
                   content = ''I apologize, but I encountered an error while processing your request.'',
                   metadata = md\<rparr>] \<and>
               map_of md ''error'' = Some e \<and>
               map_of md ''search_mode'' = Some (search_mode (settings s)) \<and>
               map_of md ''llm_model'' = Some (llm_model (settings s)) \<and>
               map_of md ''embedding_model'' = Some (embedding_model (settings s)) \<and>
               map_of md ''query_info'' = None)"
  using assms
  by (simp add: chat_turn_returns chat_turn_eq Let_def fallback_message_def fallback_response_def)

theorem failed_query_appends_fallback_witness:
  "''hello'' \<noteq> [] \<and>
   fst (call_aquery (example_env\<lparr>rag_aquery := Inl ''connection reset''\<rparr>) ''hello''
          (search_mode (settings ready_session)) ready_session) = Inl ''connection reset'' \<and>
   fst (chat_turn (example_env\<lparr>rag_aquery := Inl ''connection reset''\<rparr>) (Some ''hello'') ready_session) =
     Returned () \<and>
   (\<exists>md. messages (snd (chat_turn (example_env\<lparr>rag_aquery := Inl ''connection reset''\<rparr>)
                          (Some ''hello'') ready_session)) =
           [\<lparr>role = ''assistant'',
             content = ''I apologize, but I encountered an error while processing your request.'',
             metadata = md\<rparr>] \<and>
         map_of md ''error'' = Some ''connection reset'' \<and>
         map_of md ''search_mode'' = Some ''hybrid'' \<and>
         map_of md ''llm_model'' = Some ''gpt-4o-mini-2024-07-18'' \<and>
         map_of md ''embedding_model'' = Some ''text-embedding-ada-002'' \<and>
         map_of md ''query_info'' = None)"
proof -
  have h: "fst (call_aquery (example_env\<lparr>rag_aquery := Inl ''connection reset''\<rparr>) ''hello''
          (search_mode (settings ready_session)) ready_session) = Inl ''connection reset''"
    by (simp add: call_aquery_fst)
  show ?thesis
    using failed_query_appends_fallback [OF _ h, of "Some ''hello''"] h
    by (simp add: DEFAULT_LLM_MODEL_def DEFAULT_EMBEDDER_MODEL_def)
qed

text \<open>
  The engine raises an exception without message, such as \<^verbatim>\<open>asyncio.TimeoutError()\<close>, whose
  \<^verbatim>\<open>str\<close> is empty: the fallback message is appended, and its \<^verbatim>\<open>error\<close> is the empty text.
\<close>

theorem failed_query_error_may_be_empty:
  "rag_aquery (example_env\<lparr>rag_aquery := Inl []\<rparr>) = Inl [] \<and>
   rag ready_session \<noteq> None \<and>
   messages (snd (chat_turn (example_env\<lparr>rag_aquery := Inl []\<rparr>) (Some ''hello'') ready_session)) =
     [\<lparr>role = ''assistant'',
       content = ''I apologize, but I encountered an error while processing your request.'',
       metadata =
         [(''search_mode'', ''hybrid''),
          (''llm_model'', ''gpt-4o-mini-2024-07-18''),
          (''embedding_model'', ''text-embedding-ada-002''),
          (''error'', [])]\<rparr>] \<and>
   map_of (metadata (last (messages
      (snd (chat_turn (example_env\<lparr>rag_aquery := Inl []\<rparr>) (Some ''hello'') ready_session)))))
     ''error'' = Some []"
  by (simp add: chat_turn_eq call_aquery_fst Let_def fallback_message_def fallback_response_def
        DEFAULT_LLM_MODEL_def DEFAULT_EMBEDDER_MODEL_def)

text \<open>
  C5, as the script has it. When the query call returns, the turn appends exactly one
  message: its role is \<^verbatim>\<open>assistant\<close>, its content is the response, and its metadata holds the
  time, four of the six settings (search mode, LLM model, embedding model, temperature), the
  fingerprint of the prompt and the summary made of the mode, an at sign, the LLM model, a
  space, a hash sign and the fingerprint. The fingerprint is the first 8 characters of the
  hexadecimal digest, 8 hexadecimal digits whatever the hash function is. The system prompt
  and the key are not copied into the message.
\<close>

theorem successful_query_appends_answer:
  assumes "p \<noteq> []" and "fst (call_aquery ev p (search_mode (settings s)) s) = Inr response"
  shows "messages (snd (chat_turn ev (Some p) s)) =
           messages s @
           [\<lparr>role = ''assistant'',
             content = response,
             metadata =
               [(''timestamp'', strftime_hms ev),
                (''search_mode'', search_mode (settings s)),
                (''llm_model'', llm_model (settings s)),
                (''embedding_model'', embedding_model (settings s)),
                (''temperature'', temperature (settings s)),
                (''prompt_hash'', prompt_hash ev p),
                (''query_info'',
                 search_mode (settings s) @ ''@'' @ llm_model (settings s) @ '' #'' @
                 prompt_hash ev p)]\<rparr>] \<and>
         prompt_hash ev p = take 8 (hexdigest (xxh64_intdigest ev p)) \<and>
         length (prompt_hash ev p) = 8 \<and>
         list_all is_hex_char (prompt_hash ev p)"
  using assms
  by (simp add: chat_turn_eq Let_def success_message_def query_info_def prompt_hash_length
        prompt_hash_hex) (simp add: prompt_hash_def)

lemma example_prompt_hash [simp]: "prompt_hash example_env p = ''ef46db37''"
  by (simp add: prompt_hash_def hexdigest_def digit_char_def upt_rec)

theorem successful_query_appends_answer_witness:
  "''hello'' \<noteq> [] \<and>
   fst (call_aquery example_env ''hello'' (search_mode (settings ready_session)) ready_session) =
     Inr ''world'' \<and>
   messages (snd (chat_turn example_env (Some ''hello'') ready_session)) =
     [\<lparr>role = ''assistant'',
       content = ''world'',
       metadata =
         [(''timestamp'', ''12:00:00''),
          (''search_mode'', ''hybrid''),
          (''llm_model'', ''gpt-4o-mini-2024-07-18''),
          (''embedding_model'', ''text-embedding-ada-002''),
          (''temperature'', ''0.7''),
          (''prompt_hash'', ''ef46db37''),
          (''query_info'', ''hybrid@gpt-4o-mini-2024-07-18 #ef46db37'')]\<rparr>]"
proof -
  have h: "fst (call_aquery example_env ''hello'' (search_mode (settings ready_session))
             ready_session) = Inr ''world''"
    by (simp add: call_aquery_fst)
  show ?thesis
    using successful_query_appends_answer [OF _ h] h
    by (simp add: DEFAULT_LLM_MODEL_def DEFAULT_EMBEDDER_MODEL_def)
qed

text \<open>
  The settings hold a system prompt and a key; the metadata of the message of a successful
  turn has neither.
\<close>

theorem success_metadata_omits_prompt_and_key:
  "system_prompt (settings ready_session) =
     ''You are a helpful AI assistant that answers questions based on the provided records in Obsidian markdown format with use of #wikitags and [[wikilinks]].'' \<and>
   api_key (settings ready_session) = ''sk-test'' \<and>
   map fst (metadata (last (messages (snd (chat_turn example_env (Some ''hello'') ready_session))))) =
     [''timestamp'', ''search_mode'', ''llm_model'', ''embedding_model'', ''temperature'',
      ''prompt_hash'', ''query_info''] \<and>
   \<not> has_key (metadata (last (messages (snd (chat_turn example_env (Some ''hello'') ready_session)))))
       ''system_prompt'' \<and>
   \<not> has_key (metadata (last (messages (snd (chat_turn example_env (Some ''hello'') ready_session)))))
       ''api_key''"
  by (simp add: chat_turn_eq call_aquery_fst Let_def success_message_def has_key_def
        default_settings_def)

subsection \<open>Export of the conversation\<close>

lemma join_Cons: "ys \<noteq> [] \<Longrightarrow> join sep (x # ys) = x @ sep @ join sep ys"
  by (cases ys) simp_all

lemma join_append:
  "xs \<noteq> [] \<Longrightarrow> ys \<noteq> [] \<Longrightarrow> join sep (xs @ ys) = join sep xs @ sep @ join sep ys"
proof (induction xs)
  case Nil
  then show ?case by simp
next
  case (Cons x xs)
  show ?case
  proof (cases "xs = []")
    case True
    with Cons.prems show ?thesis by (simp add: join_Cons)
  next
    case False
    with Cons show ?thesis by (simp add: join_Cons)
  qed
qed

lemma md_header_text:
  "join nl (md_header ev st) =
     ''# LightRAG Chat Session'' @ nl @ nl @
     ''*Exported on '' @ strftime_datetime ev @ ''*'' @ nl @ nl @
     nl @ ''## Settings'' @ nl @ nl @
     ''- Search Mode: '' @ search_mode st @ nl @
     ''- LLM Model: '' @ llm_model st @ nl @
     ''- Embedding Model: '' @ embedding_model st @ nl @
     ''- Temperature: '' @ temperature st @ nl @
     ''- System Prompt: '' @ system_prompt st @ nl @ nl @
     nl @ ''## Conversation'' @ nl"
  by (simp add: md_header_def)

lemma md_message_contains: "\<exists>a b. join nl (md_message m) = a @ content m @ b"
proof -
  obtain h ex where m: "md_message m = h # (nl @ content m @ nl) # ex"
    by (simp add: md_message_def)
  show ?thesis
  proof (cases "ex = []")
    case True
    then have "join nl (md_message m) = (h @ nl @ nl) @ content m @ nl"
      by (simp add: m)
    then show ?thesis by blast
  next
    case False
    then have "join nl (md_message m) = (h @ nl @ nl) @ content m @ (nl @ nl @ join nl ex)"
      by (simp add: m join_Cons)
    then show ?thesis by blast
  qed
qed

lemma md_message_nonempty: "md_message m \<noteq> []"
  by (simp add: md_message_def)

lemma md_content_two:
  assumes "messages s = [m1, m2]"
  shows "\<exists>pre mid post.
           md_content ev s =
             join nl (md_header ev (settings s)) @ pre @ content m1 @ mid @ content m2 @ post"
proof -
  obtain a1 b1 where 1: "join nl (md_message m1) = a1 @ content m1 @ b1"
    using md_message_contains by blast
  obtain a2 b2 where 2: "join nl (md_message m2) = a2 @ content m2 @ b2"
    using md_message_contains by blast
  have h: "md_header ev (settings s) \<noteq> []" by (simp add: md_header_def)
  have "md_content ev s =
          join nl (md_header ev (settings s)) @ nl @
          join nl (md_message m1) @ nl @ join nl (md_message m2)"
    using assms h md_message_nonempty [of m1] md_message_nonempty [of m2]
    by (simp add: md_content_def join_append)
  then have "md_content ev s =
          join nl (md_header ev (settings s)) @ (nl @ a1) @ content m1 @ (b1 @ nl @ a2) @
          content m2 @ b2"
    by (simp add: 1 2)
  then show ?thesis by blast
qed

text \<open>
  C8. On an empty history \<^verbatim>\<open>handle_chat_download\<close> reports that there is nothing to download
  and offers no file. On a history of two messages it offers a text that starts with the
  header (the title, the time of the export, then the current search mode, LLM model,
  embedding model, temperature and system prompt; the key is not written) and goes on with
  the content of the first message and, after it, the content of the second.
\<close>

theorem export_as_markdown:
  "(messages s = [] \<longrightarrow>
      handle_chat_download ev s =
        emit (StError ''No messages to download yet! Start a conversation first.'') s) \<and>
   (messages s = [m1, m2] \<longrightarrow>
      (\<exists>pre mid post.
         handle_chat_download ev s =
           emit (StDownloadButton ''Download Chat''
                  ((''# LightRAG Chat Session'' @ nl @ nl @
                    ''*Exported on '' @ strftime_datetime ev @ ''*'' @ nl @ nl @
                    nl @ ''## Settings'' @ nl @ nl @
                    ''- Search Mode: '' @ search_mode (settings s) @ nl @
                    ''- LLM Model: '' @ llm_model (settings s) @ nl @
                    ''- Embedding Model: '' @ embedding_model (settings s) @ nl @
                    ''- Temperature: '' @ temperature (settings s) @ nl @
                    ''- System Prompt: '' @ system_prompt (settings s) @ nl @ nl @
                    nl @ ''## Conversation'' @ nl) @
                   pre @ content m1 @ mid @ content m2 @ post)
                  (''chat_session_'' @ strftime_file ev @ ''.md'') ''text/markdown'') s))"
proof (intro conjI impI)
  assume "messages s = []"
  then show "handle_chat_download ev s =
        emit (StError ''No messages to download yet! Start a conversation first.'') s"
    by (simp add: handle_chat_download_def)
next
  assume m: "messages s = [m1, m2]"
  from md_content_two [OF m, of ev] obtain pre mid post where
    c: "md_content ev s =
          join nl (md_header ev (settings s)) @ pre @ content m1 @ mid @ content m2 @ post"
    by blast
  have "handle_chat_download ev s =
          emit (StDownloadButton ''Download Chat'' (md_content ev s)
                 (''chat_session_'' @ strftime_file ev @ ''.md'') ''text/markdown'') s"
    using m by (simp add: handle_chat_download_def)
  then show "\<exists>pre mid post.
         handle_chat_download ev s =
           emit (StDownloadButton ''Download Chat''
                  ((''# LightRAG Chat Session'' @ nl @ nl @
                    ''*Exported on '' @ strftime_datetime ev @ ''*'' @ nl @ nl @
                    nl @ ''## Settings'' @ nl @ nl @
                    ''- Search Mode: '' @ search_mode (settings s) @ nl @
                    ''- LLM Model: '' @ llm_model (settings s) @ nl @
                    ''- Embedding Model: '' @ embedding_model (settings s) @ nl @
                    ''- Temperature: '' @ temperature (settings s) @ nl @
                    ''- System Prompt: '' @ system_prompt (settings s) @ nl @ nl @
                    nl @ ''## Conversation'' @ nl) @
                   pre @ content m1 @ mid @ content m2 @ post)
                  (''chat_session_'' @ strftime_file ev @ ''.md'') ''text/markdown'') s"
    unfolding c md_header_text by blast
qed

lemma two_turn_messages [simp]:
  "messages two_turn_session =
     [success_message example_env (default_settings ''sk-test'') ''hello'' ''world'',
      fallback_message (default_settings ''sk-test'') ''timed out'']"
  by (simp add: two_turn_session_def chat_turn_eq call_aquery_fst Let_def)

lemma two_turn_settings [simp]: "settings two_turn_session = default_settings ''sk-test''"
  by (simp add: two_turn_session_def chat_turn_eq call_aquery_fst Let_def)


theorem export_as_markdown_witness:
  "messages ready_session = [] \<and>
   handle_chat_download example_env ready_session =
     emit (StError ''No messages to download yet! Start a conversation first.'') ready_session \<and>
   messages two_turn_session =
     [success_message example_env (default_settings ''sk-test'') ''hello'' ''world'',
      fallback_message (default_settings ''sk-test'') ''timed out''] \<and>
   (\<exists>pre mid post.
      handle_chat_download example_env two_turn_session =
        emit (StDownloadButton ''Download Chat''
               ((''# LightRAG Chat Session'' @ nl @ nl @
                 ''*Exported on 2024-11-09 12:00:00*'' @ nl @ nl @
                 nl @ ''## Settings'' @ nl @ nl @
                 ''- Search Mode: hybrid'' @ nl @
                 ''- LLM Model: gpt-4o-mini-2024-07-18'' @ nl @
                 ''- Embedding Model: text-embedding-ada-002'' @ nl @
                 ''- Temperature: 0.7'' @ nl @
                 ''- System Prompt: '' @ system_prompt (default_settings ''sk-test'') @ nl @ nl @
                 nl @ ''## Conversation'' @ nl) @
                pre @ ''world'' @ mid @
                ''I apologize, but I encountered an error while processing your request.'' @ post)
               ''chat_session_20241109_120000.md'' ''text/markdown'') two_turn_session)"
  using export_as_markdown [of ready_session example_env]
        export_as_markdown [of two_turn_session example_env
          "success_message example_env (default_settings ''sk-test'') ''hello'' ''world''"
          "fallback_message (default_settings ''sk-test'') ''timed out''"]
  by (simp add: success_message_def fallback_message_def fallback_response_def
        DEFAULT_LLM_MODEL_def DEFAULT_EMBEDDER_MODEL_def)

subsection \<open>Settings dialog\<close>

lemma selectbox_ok:
  "current \<in> set options \<Longrightarrow> \<exists>v. selectbox options current pick = Inr v \<and> v \<in> set options"
  by (simp add: selectbox_def split: option.splits)

lemma get_llm_config_ok: "m \<in> set AVAILABLE_LLM_MODELS \<Longrightarrow> get_llm_config m = Inr m"
  by (simp add: get_llm_config_def AVAILABLE_LLM_MODELS_def)

lemma get_embedding_config_ok:
  "m \<in> set AVAILABLE_EMBEDDER_MODELS \<Longrightarrow> \<exists>ef. get_embedding_config m = Inr ef"
  by (auto simp add: get_embedding_config_def embedding_configs_def AVAILABLE_EMBEDDER_MODELS_def
        DEFAULT_EMBEDDER_MODEL_def)

lemma show_settings_dialog_selectable:
  assumes "selectable (settings s)"
  shows "fst (show_settings_dialog form s) = (if apply_clicked form then Rerun else Returned ()) \<and>
         selectable (settings (snd (show_settings_dialog form s))) \<and>
         rag (snd (show_settings_dialog form s)) = rag s \<and>
         messages (snd (show_settings_dialog form s)) = messages s \<and>
         trace (snd (show_settings_dialog form s)) = trace s \<and>
         initialized (snd (show_settings_dialog form s)) =
           (initialized s \<and> api_key_input form = api_key (settings s) \<and> \<not> apply_clicked form) \<and>
         api_key (settings (snd (show_settings_dialog form s))) = api_key_input form \<and>
         temperature (settings (snd (show_settings_dialog form s))) = temperature_input form \<and>
         system_prompt (settings (snd (show_settings_dialog form s))) = system_prompt_input form"
proof -
  from assms obtain a where a: "selectbox AVAILABLE_LLM_MODELS (llm_model (settings s))
      (llm_model_pick form) = Inr a" "a \<in> set AVAILABLE_LLM_MODELS"
    using selectbox_ok [of "llm_model (settings s)" AVAILABLE_LLM_MODELS] 
    by (auto simp add: selectable_def)
  from assms obtain b where b: "selectbox AVAILABLE_EMBEDDER_MODELS (embedding_model (settings s))
      (embedding_model_pick form) = Inr b" "b \<in> set AVAILABLE_EMBEDDER_MODELS"
    using selectbox_ok [of "embedding_model (settings s)" AVAILABLE_EMBEDDER_MODELS] 
    by (auto simp add: selectable_def)
  from assms obtain c where c: "selectbox SEARCH_MODES (search_mode (settings s))
      (search_mode_pick form) = Inr c" "c \<in> set SEARCH_MODES"
    using selectbox_ok [of "search_mode (settings s)" SEARCH_MODES] 
    by (auto simp add: selectable_def)
  show ?thesis
    using a b c
    by (auto simp add: show_settings_dialog_def Let_def handle_settings_update_def selectable_def)
qed

lemma init_rag_ok:
  assumes "api_key (settings s) \<noteq> []" and "openai_probe ev = Inr t" and "lightrag_new ev = Inr g"
    and "get_llm_config (llm_model (settings s)) = Inr (llm_model (settings s))"
    and "get_embedding_config (embedding_model (settings s)) = Inr ef"
  shows "fst (init_rag ev s) = Returned True \<and>
         initialized (snd (init_rag ev s)) \<and>
         settings (snd (init_rag ev s)) = settings s \<and>
         messages (snd (init_rag ev s)) = messages s \<and>
         rag (snd (init_rag ev s)) = Some \<lparr>built_from = args_for (settings s) ef, graph = g\<rparr> \<and>
         constructions (snd (init_rag ev s)) = Suc (constructions s)"
  using assms
  by (simp add: init_rag_def test_api_key_ok Let_def args_for_def)

text \<open>
  C4, as the script has it. The dialog marks the engine for rebuilding in two cases only: the
  key field differs from the stored key, or "Apply Settings" is pressed (whatever was
  changed). In both cases the session is uninitialised afterwards, and when the next check
  finds a non-empty key, a probe that succeeds and a constructor that returns, it makes
  exactly one construction, from the settings as the dialog left them, and the new engine
  takes the place of the old.
\<close>

theorem settings_update_forces_one_rebuild:
  assumes "selectable (settings s)"
    and "api_key_input form \<noteq> api_key (settings s) \<or> apply_clicked form"
    and "show_settings_dialog form s = (r, s1)"
    and "api_key (settings s1) \<noteq> []" and "openai_probe ev = Inr t" and "lightrag_new ev = Inr g"
  shows "r = (if apply_clicked form then Rerun else Returned ()) \<and>
         \<not> initialized s1 \<and>
         fst (ensure_ready ev s1) = Returned () \<and>
         initialized (snd (ensure_ready ev s1)) \<and>
         constructions (snd (ensure_ready ev s1)) = constructions s + 1 \<and>
         (\<exists>ef. get_embedding_config (embedding_model (settings s1)) = Inr ef \<and>
               rag (snd (ensure_ready ev s1)) =
                 Some \<lparr>built_from = args_for (settings s1) ef, graph = g\<rparr>)"
proof -
  note d = show_settings_dialog_selectable [OF assms(1), of form, unfolded assms(3), simplified]
  from d assms(2) have u: "\<not> initialized s1" by auto
  from d have sel: "selectable (settings s1)" by simp
  from d have c: "constructions s1 = constructions s" by (simp add: constructions_def)
  from sel have l: "get_llm_config (llm_model (settings s1)) = Inr (llm_model (settings s1))"
    by (simp add: selectable_def get_llm_config_ok)
  from sel obtain ef where ef: "get_embedding_config (embedding_model (settings s1)) = Inr ef"
    using get_embedding_config_ok by (auto simp add: selectable_def)
  note i = init_rag_ok [OF assms(4,5,6) l ef]
  have e: "ensure_ready ev s1 = (Returned (), snd (init_rag ev s1))"
    using u i by (cases "init_rag ev s1") (simp add: ensure_ready_def)
  show ?thesis
    using d u i c ef by (simp add: e)
qed

lemma default_selectable [simp]: "selectable (default_settings k)"
  by (simp add: selectable_def AVAILABLE_LLM_MODELS_def AVAILABLE_EMBEDDER_MODELS_def
        SEARCH_MODES_def)

lemma ready_selectable: "selectable (settings ready_session)"
  by simp

lemma form_fields [simp]:
  "api_key_input untouched_form = ''sk-test''"
  "apply_clicked untouched_form = False"
  "api_key_input wrong_key_form = ''sk-wrong''"
  "apply_clicked wrong_key_form = False"
  "api_key_input other_model_form = ''sk-test''"
  "apply_clicked other_model_form = False"
  "api_key_input apply_model_form = ''sk-test''"
  "apply_clicked apply_model_form = True"
  by (simp_all add: untouched_form_def wrong_key_form_def other_model_form_def
        apply_model_form_def)

lemma other_model_chosen [simp]:
  "llm_model (settings (snd (show_settings_dialog other_model_form ready_session))) = ''gpt-4o-mini''"
  "llm_model (settings (snd (show_settings_dialog apply_model_form ready_session))) = ''gpt-4o-mini''"
  by (simp_all add: show_settings_dialog_def selectbox_def Let_def other_model_form_def
        apply_model_form_def untouched_form_def AVAILABLE_LLM_MODELS_def
        AVAILABLE_EMBEDDER_MODELS_def SEARCH_MODES_def handle_settings_update_def)

lemma init_rag_rejected:
  "api_key (settings s) \<noteq> [] \<Longrightarrow> openai_probe ev = Inl e \<Longrightarrow>
   init_rag ev s =
     form_then_False ev
       (emit (StError (api_error_text e)) (emit (OpenAIProbe (api_key (settings s))) s))"
  by (simp add: init_rag_def test_api_key_rejected form_then_False_eq)

lemma bad_key_env_fields [simp]:
  "openai_probe bad_key_env = Inl ''Incorrect API key provided''"
  "api_form_submitted bad_key_env = False"
  by (simp_all add: bad_key_env_def example_env_def)

theorem settings_update_forces_one_rebuild_witness:
  "selectable (settings ready_session) \<and>
   apply_clicked apply_model_form \<and>
   llm_model (settings ready_session) = ''gpt-4o-mini-2024-07-18'' \<and>
   llm_model (settings (snd (show_settings_dialog apply_model_form ready_session))) = ''gpt-4o-mini'' \<and>
   fst (show_settings_dialog apply_model_form ready_session) = Rerun \<and>
   \<not> initialized (snd (show_settings_dialog apply_model_form ready_session)) \<and>
   constructions ready_session = 1 \<and>
   constructions (snd (ensure_ready example_env
        (snd (show_settings_dialog apply_model_form ready_session)))) = 2 \<and>
   initialized (snd (ensure_ready example_env
        (snd (show_settings_dialog apply_model_form ready_session))))"
proof -
  have h3: "show_settings_dialog apply_model_form ready_session =
              (fst (show_settings_dialog apply_model_form ready_session),
               snd (show_settings_dialog apply_model_form ready_session))" by simp
  have h4: "api_key (settings (snd (show_settings_dialog apply_model_form ready_session))) \<noteq> []"
    using show_settings_dialog_selectable [OF ready_selectable, of apply_model_form] by simp
  show ?thesis
    using settings_update_forces_one_rebuild
            [OF ready_selectable _ h3 h4, of example_env
               "''LightRAG is a retrieval framework.''" "Some (3, 2)"]
    by (simp add: DEFAULT_LLM_MODEL_def)
qed

text \<open>
  Two runs on an initialised session whose engine was built for the default model. In the
  first the key is changed to one that the provider rejects: the session is marked, but the
  next check builds nothing and the session keeps the engine it had. In the second the
  model is changed in the dialog and "Apply Settings" is not pressed: the session stays
  initialised, the next check does nothing, and the engine is still the one built for the
  old model.
\<close>

theorem settings_change_without_rebuild:
  "api_key (settings (snd (show_settings_dialog wrong_key_form ready_session))) = ''sk-wrong'' \<and>
   \<not> initialized (snd (show_settings_dialog wrong_key_form ready_session)) \<and>
   constructions (snd (ensure_ready bad_key_env
        (snd (show_settings_dialog wrong_key_form ready_session)))) = constructions ready_session \<and>
   rag (snd (ensure_ready bad_key_env
        (snd (show_settings_dialog wrong_key_form ready_session)))) = rag ready_session \<and>
   llm_model (settings ready_session) = ''gpt-4o-mini-2024-07-18'' \<and>
   llm_model (settings (snd (show_settings_dialog other_model_form ready_session))) = ''gpt-4o-mini'' \<and>
   initialized (snd (show_settings_dialog other_model_form ready_session)) \<and>
   ensure_ready example_env (snd (show_settings_dialog other_model_form ready_session)) =
     (Returned (), snd (show_settings_dialog other_model_form ready_session)) \<and>
   rag (snd (show_settings_dialog other_model_form ready_session)) = rag ready_session"
proof -
  note a = show_settings_dialog_selectable [OF ready_selectable, of wrong_key_form, simplified]
  note b = show_settings_dialog_selectable [OF ready_selectable, of other_model_form, simplified]
  have k: "api_key (settings (snd (show_settings_dialog wrong_key_form ready_session))) \<noteq> []"
    using a by simp
  have "ensure_ready bad_key_env (snd (show_settings_dialog wrong_key_form ready_session)) =
          (Returned (),
           emit StForm
             (emit (StError (api_error_text ''Incorrect API key provided''))
               (emit (OpenAIProbe ''sk-wrong'')
                 (snd (show_settings_dialog wrong_key_form ready_session)))))"
    using a by (simp add: ensure_ready_def init_rag_rejected [OF k bad_key_env_fields(1)]
                  form_then_False_eq)
  then show ?thesis
    using a b by (simp add: ensure_ready_initialized constructions_def DEFAULT_LLM_MODEL_def)
qed

subsection \<open>Insert dialog\<close>

lemma engine_inserts_simps [simp]:
  "engine_inserts [] = []"
  "engine_inserts (xs @ ys) = engine_inserts xs @ engine_inserts ys"
  "engine_inserts (log_effects m) = []"
  "engine_inserts (EngineInsert c # es) = c # engine_inserts es"
  "engine_inserts (StError t # es) = engine_inserts es"
  "engine_inserts (StSuccess t # es) = engine_inserts es"
  "engine_inserts (StForm # es) = engine_inserts es"
  "engine_inserts (LoggerException t # es) = engine_inserts es"
  "engine_inserts (OpenAIProbe t # es) = engine_inserts es"
  by (simp_all add: engine_inserts_def log_effects_def)

text \<open>
  An insert for which the engine reports no relationship: the error is shown, exactly one
  entry with the prefix \<^verbatim>\<open>[-]\<close> is logged, and no session field but the log changes.
\<close>

lemma handle_insert_soft_failure:
  assumes "rag s \<noteq> None" and "api_key (settings s) \<noteq> []" and "openai_probe ev = Inr t"
    and "rag_ainsert ev = Inr False"
  shows "fst (handle_insert ev c s) = Returned () \<and>
         effects_since s (snd (handle_insert ev c s)) =
           [OpenAIProbe (api_key (settings s))] @
           log_effects (''[T] Test prompt: What is LightRAG?'' @ nl @ ''[@] '' @ take 100 t @ ''...'') @
           log_effects (''[*] Processing content ('' @ str_nat (length c) @ '' chars)...'') @
           [EngineInsert c, StError ''Failed to insert content - no relationships extracted''] @
           log_effects ''[-] Failed to extract relationships from content'' \<and>
         filter (starts_with ''[-]'') (log_appends (effects_since s (snd (handle_insert ev c s)))) =
           [''[-] Failed to extract relationships from content''] \<and>
         initialized (snd (handle_insert ev c s)) = initialized s \<and>
         settings (snd (handle_insert ev c s)) = settings s \<and>
         rag (snd (handle_insert ev c s)) = rag s \<and>
         messages (snd (handle_insert ev c s)) = messages s"
proof -
  have t: "trace (snd (handle_insert ev c s)) = trace s @
           ([OpenAIProbe (api_key (settings s))] @
           log_effects (''[T] Test prompt: What is LightRAG?'' @ nl @ ''[@] '' @ take 100 t @ ''...'') @
           log_effects (''[*] Processing content ('' @ str_nat (length c) @ '' chars)...'') @
           [EngineInsert c, StError ''Failed to insert content - no relationships extracted''] @
           log_effects ''[-] Failed to extract relationships from content'')"
    using assms by (auto simp add: handle_insert_def test_api_key_ok Let_def)
  note a = effects_since_append [OF t]
  show ?thesis
    unfolding a using assms by (auto simp add: handle_insert_def test_api_key_ok Let_def)
qed

text \<open>
  The Paste tab drops an empty text (line 245). The Upload tab passes on whatever the file
  holds (line 261).
\<close>

lemma paste_empty_is_no_op: "show_insert_dialog ev (PasteInsert []) s = (Returned (), s)"
  by (simp add: show_insert_dialog_def)

lemma upload_is_not_guarded:
  "show_insert_dialog ev (FileInsert (Inr file_content)) s = handle_insert ev file_content s"
  by (simp add: show_insert_dialog_def)

text \<open>
  C7, on the script. "Insert" on the Paste tab with an empty text area calls nothing. "Insert
  File" on the Upload tab with an empty file, on an initialised session with a working key,
  probes the key, logs the processing of 0 characters and calls the engine's insert with
  the empty text.
\<close>

theorem empty_upload_reaches_engine:
  "engine_inserts (effects_since ready_session
     (snd (show_insert_dialog example_env (PasteInsert []) ready_session))) = [] \<and>
   engine_inserts (effects_since ready_session
     (snd (show_insert_dialog example_env (FileInsert (Inr [])) ready_session))) = [[]] \<and>
   log_appends (effects_since ready_session
     (snd (show_insert_dialog example_env (FileInsert (Inr [])) ready_session))) =
     [''[T] Test prompt: What is LightRAG?'' @ nl @ ''[@] LightRAG is a retrieval framework....'',
      ''[*] Processing content (0 chars)...'',
      ''[-] Failed to extract relationships from content'']"
proof -
  have r: "rag ready_session \<noteq> None" and k: "api_key (settings ready_session) \<noteq> []" by simp_all
  note h = handle_insert_soft_failure [OF r k example_env_fields(1) example_env_fields(4), of "[]"]
  show ?thesis
    using h by (simp add: upload_is_not_guarded paste_empty_is_no_op effects_since_def
                  str_nat.simps digit_char_def)
qed

end
